theory Spec2Isabelle
  imports Complex_Main
begin

section \<open>The command line example of proxmox-api-go (examples/cli/main.go)\<close>

text \<open>
  The program parses its flags, logs in to a Proxmox server through the \<open>proxmox\<close>
  client package and prints listings of nodes, storages and virtual machines.
  The model is a shallow embedding of \<open>main.go\<close>:
  \<^item> a run returns how it ended (\<open>outcome\<close>), the state of the outside world after it
    and the trace of what it did, in order: every call of \<open>fmt.Println\<close>,
    \<open>fmt.Printf\<close>, \<open>log.Println\<close>, \<open>log.Fatalln\<close>, \<open>log.Fatalf\<close> with its operands, and
    every call of a method of the client;
  \<^item> the client package and the server behind it are a parameter: a record of functions
    that take the state of the world and return the answer and the next state of the
    world, so that two calls with the same arguments may answer differently;
  \<^item> \<open>os.Exit\<close>, the exit inside \<open>log.Fatalln\<close>/\<open>log.Fatalf\<close> and the run-time panic of
    a failed unchecked type assertion are outcomes that stop the run.
\<close>

subsection \<open>Dynamically typed values\<close>

text \<open>
  The values of Go's \<open>interface{}\<close> that decoding JSON produces: \<open>nil\<close>, \<open>string\<close>,
  \<open>float64\<close> (every finite one is a real number; the program never computes with them),
  \<open>bool\<close>, \<open>[]interface{}\<close> and \<open>map[string]interface{}\<close>. A map is the list of its
  entries in the order in which the one \<open>range\<close> loop over it visits them (Go leaves
  that order open, so a statement for every list is a statement for every order).
\<close>

datatype dyn =
    DNil
  | DString string
  | DNumber real
  | DBool bool
  | DList "dyn list"
  | DMap "(string \<times> dyn) list"

text \<open>The unchecked assertion \<open>x.([]interface{})\<close>: \<open>None\<close> is the run-time panic.\<close>

fun assert_list :: "dyn \<Rightarrow> dyn list option" where
  "assert_list (DList xs) = Some xs"
| "assert_list _ = None"

text \<open>The unchecked assertion \<open>x.(map[string]interface{})\<close>.\<close>

fun assert_map :: "dyn \<Rightarrow> (string \<times> dyn) list option" where
  "assert_map (DMap m) = Some m"
| "assert_map _ = None"

text \<open>The unchecked assertion \<open>x.(string)\<close>.\<close>

fun assert_string :: "dyn \<Rightarrow> string option" where
  "assert_string (DString s) = Some s"
| "assert_string _ = None"

text \<open>The checked assertion \<open>s, ok := x.(string)\<close>: the zero value \<open>""\<close> when it fails.\<close>

fun string_ok :: "dyn \<Rightarrow> string \<times> bool" where
  "string_ok (DString s) = (s, True)"
| "string_ok _ = ([], False)"

text \<open>\<open>m[k]\<close>: the zero value \<open>nil\<close> for a key that is absent.\<close>

definition index :: "(string \<times> dyn) list \<Rightarrow> string \<Rightarrow> dyn" where
  "index m k = (case map_of m k of None \<Rightarrow> DNil | Some v \<Rightarrow> v)"

subsection \<open>Outcomes, operands and the trace\<close>

datatype outcome = Return | Exit int | Panic

text \<open>The exit status of the process: 0 when \<open>main\<close> returns, 2 after a Go panic.\<close>

fun exit_code :: "outcome \<Rightarrow> int" where
  "exit_code Return = 0"
| "exit_code (Exit n) = n"
| "exit_code Panic = 2"

text \<open>
  An operand of a print call: a string, a dynamic value, an agent network interface
  (a struct of the client package), or the pointer \<open>serverURL\<close> that line 66 passes
  without dereferencing it.
\<close>

datatype 'i operand = Str string | Dyn dyn | Iface 'i | Ptr_serverURL

record http_client =
  InsecureSkipVerify :: bool

text \<open>\<open>http.DefaultClient\<close> as the program finds it: certificates are verified.\<close>

definition DefaultClient :: http_client where
  "DefaultClient = \<lparr>InsecureSkipVerify = False\<rparr>"

text \<open>The client handle: what \<open>proxmox.NewClient\<close> was given.\<close>

record client =
  ApiUrl :: string
  HttpClient :: http_client
  TaskTimeout :: int

datatype 'r api_call =
    CallNewClient
  | CallLogin string string string
  | CallGetNodeList
  | CallListStorages string
  | CallGetVmList
  | CallGetVmRefByName string
  | CallGetVmConfig 'r
  | CallGetVmAgentNetworkInterfaces 'r

datatype ('r, 'i) event =
    Println "'i operand list"
  | Printf string "'i operand list"
  | Log_Println "'i operand list"
  | Log_Printf string "'i operand list"
  | Call client "'r api_call"

text \<open>
  The client package (\<open>github.com/Telmate/proxmox-api-go/proxmox\<close>) with the server
  behind it. \<open>'w\<close> is the state of the world, \<open>'r\<close> the type \<open>*VmRef\<close>, \<open>'i\<close> the type
  \<open>AgentNetworkInterface\<close>. An error is its message (\<open>err.Error()\<close>). The listings
  are the values their \<open>range\<close> loop visits, in the order visited. The package itself
  is not part of \<open>main.go\<close>: the methods are those that \<open>main.go\<close> calls, with the
  results that it expects of them, and nothing is assumed of what they answer.
\<close>

record ('w, 'r, 'i) proxmox =
  NewClient :: "'w \<Rightarrow> client \<Rightarrow> string option \<times> 'w"
  Login :: "'w \<Rightarrow> client \<Rightarrow> string \<Rightarrow> string \<Rightarrow> string \<Rightarrow> string option \<times> 'w"
  GetNodeList :: "'w \<Rightarrow> client \<Rightarrow> (string + dyn list) \<times> 'w"
  ListStorages :: "'w \<Rightarrow> client \<Rightarrow> string \<Rightarrow> (string + dyn list) \<times> 'w"
  GetVmList :: "'w \<Rightarrow> client \<Rightarrow> (string + dyn list) \<times> 'w"
  GetVmRefByName :: "'w \<Rightarrow> client \<Rightarrow> string \<Rightarrow> (string + 'r) \<times> 'w"
  GetVmConfig :: "'w \<Rightarrow> client \<Rightarrow> 'r \<Rightarrow> (string + (string \<times> dyn) list) \<times> 'w"
  GetVmAgentNetworkInterfaces :: "'w \<Rightarrow> client \<Rightarrow> 'r \<Rightarrow> (string + 'i list) \<times> 'w"

type_synonym ('w, 'r, 'i) run = "outcome \<times> 'w \<times> ('r, 'i) event list"

text \<open>The events \<open>t\<close> happen, then the run \<open>r\<close>.\<close>

definition emit :: "('r, 'i) event list \<Rightarrow> ('w, 'r, 'i) run \<Rightarrow> ('w, 'r, 'i) run" where
  "emit t r = (case r of (oc, w, t') \<Rightarrow> (oc, w, t @ t'))"

text \<open>Sequencing: what follows runs only when the first part returned.\<close>

definition and_then ::
  "('w, 'r, 'i) run \<Rightarrow> ('w \<Rightarrow> ('w, 'r, 'i) run) \<Rightarrow> ('w, 'r, 'i) run" where
  "and_then r k = (case r of (Return, w, t) \<Rightarrow> emit t (k w) | _ \<Rightarrow> r)"

subsection \<open>Text constants\<close>

definition tab :: string where
  "tab = [CHR 0x09]"

definition nl :: string where
  "nl = [CHR 0x0A]"

definition usageString :: string where
  "usageString =
     nl @ ''Usage:'' @ nl @
     ''  %s [options] <command> [<args>...]'' @ nl @
     nl @
     ''  Commands:'' @ nl @
     tab @ ''help [command]     Show help for a command'' @ nl @
     tab @ ''list [object type] List objects of a given type (e.g. cluster, node, storage, vm, ...)'' @ nl @
     tab @ ''login              Login to Proxmox server and display credentials (not necessary for most commands)'' @ nl"

definition usage :: "string \<Rightarrow> ('r, 'i) event list" where
  "usage prog = [Printf usageString [Str prog]]"

text \<open>The function \<open>help\<close> (the name is a keyword of Isabelle).\<close>

definition help_command :: "string \<Rightarrow> string \<Rightarrow> ('r, 'i) event list" where
  "help_command prog command =
     (if command = ''list'' then
        [Printf (''List objects of a given type (e.g. cluster, node, storage, vm, ...)'' @ nl @
                 ''examples:'' @ nl @
                 tab @ ''%s list cluster'' @ nl @
                 tab @ ''%s list node'' @ nl @
                 tab @ ''%s list storage'' @ nl @
                 tab @ ''%s list vm'' @ nl)
           [Str prog, Str prog, Str prog, Str prog]]
      else [Printf (''Unknown command: %s'' @ nl) [Str command]])"

subsection \<open>Listing nodes\<close>

text \<open>Lines 149 to 153: the attributes of one node, the key \<open>node\<close> left out.\<close>

fun listNodes_attrs :: "(string \<times> dyn) list \<Rightarrow> ('r, 'i) event list" where
  "listNodes_attrs [] = []"
| "listNodes_attrs ((nodeAttr, nodeAttrValue) # rest) =
     (if nodeAttr \<noteq> ''node''
      then [Println [Str tab, Str nodeAttr, Str '':'', Dyn nodeAttrValue]]
      else []) @ listNodes_attrs rest"

text \<open>Lines 147 to 153: the body of the inner loop, for one node.\<close>

definition listNodes_node :: "dyn \<Rightarrow> outcome \<times> ('r, 'i) event list" where
  "listNodes_node node =
     (case assert_map node of
        None \<Rightarrow> (Panic, [])
      | Some m \<Rightarrow>
          (let name = fst (string_ok (index m ''node''))
           in (Return, Println [Str name] # listNodes_attrs m)))"

text \<open>Line 146: the inner loop.\<close>

fun listNodes_nodes :: "dyn list \<Rightarrow> outcome \<times> ('r, 'i) event list" where
  "listNodes_nodes [] = (Return, [])"
| "listNodes_nodes (node # rest) =
     (case listNodes_node node of
        (Return, t) \<Rightarrow> (case listNodes_nodes rest of (oc, t') \<Rightarrow> (oc, t @ t'))
      | (oc, t) \<Rightarrow> (oc, t))"

text \<open>Line 145: the outer loop.\<close>

fun listNodes_infos :: "dyn list \<Rightarrow> outcome \<times> ('r, 'i) event list" where
  "listNodes_infos [] = (Return, [])"
| "listNodes_infos (nodeInfo # rest) =
     (case assert_list nodeInfo of
        None \<Rightarrow> (Panic, [])
      | Some nodes \<Rightarrow>
          (case listNodes_nodes nodes of
             (Return, t) \<Rightarrow> (case listNodes_infos rest of (oc, t') \<Rightarrow> (oc, t @ t'))
           | (oc, t) \<Rightarrow> (oc, t)))"

definition listNodes :: "('w, 'r, 'i) proxmox \<Rightarrow> 'w \<Rightarrow> client \<Rightarrow> ('w, 'r, 'i) run" where
  "listNodes env w cl =
     (case GetNodeList env w cl of
        (Inl err, w') \<Rightarrow>
          (Exit 1, w', [Call cl CallGetNodeList, Log_Println [Str ''Failed to list nodes'', Str err]])
      | (Inr nodes, w') \<Rightarrow>
          (case listNodes_infos nodes of
             (oc, t) \<Rightarrow> (oc, w', Call cl CallGetNodeList # t)))"

subsection \<open>Listing storages\<close>

text \<open>Lines 175 to 179: the attributes of one storage, the key \<open>storage\<close> left out.\<close>

fun listStorages_attrs :: "(string \<times> dyn) list \<Rightarrow> ('r, 'i) event list" where
  "listStorages_attrs [] = []"
| "listStorages_attrs ((attrName, attrVal) # rest) =
     (if attrName \<noteq> ''storage''
      then [Printf (tab @ tab @ ''%s:%+v'' @ nl) [Str attrName, Dyn attrVal]]
      else []) @ listStorages_attrs rest"

text \<open>Lines 173 to 179: one storage. Both assertions of line 173 are unchecked.\<close>

definition listStorages_storage :: "dyn \<Rightarrow> outcome \<times> ('r, 'i) event list" where
  "listStorages_storage storage =
     (case assert_map storage of
        None \<Rightarrow> (Panic, [])
      | Some m \<Rightarrow>
          (case assert_string (index m ''storage'') of
             None \<Rightarrow> (Panic, [])
           | Some storageName \<Rightarrow>
               (Return, Println [Str tab, Str storageName] # listStorages_attrs m)))"

text \<open>Line 172: the loop over the storages of one node.\<close>

fun listStorages_storages :: "dyn list \<Rightarrow> outcome \<times> ('r, 'i) event list" where
  "listStorages_storages [] = (Return, [])"
| "listStorages_storages (storage # rest) =
     (case listStorages_storage storage of
        (Return, t) \<Rightarrow> (case listStorages_storages rest of (oc, t') \<Rightarrow> (oc, t @ t'))
      | (oc, t) \<Rightarrow> (oc, t))"

text \<open>Lines 165 to 180: one node. Both assertions of line 165 are unchecked.\<close>

definition listStorages_node ::
  "('w, 'r, 'i) proxmox \<Rightarrow> 'w \<Rightarrow> client \<Rightarrow> dyn \<Rightarrow> ('w, 'r, 'i) run" where
  "listStorages_node env w cl node =
     (case assert_map node of
        None \<Rightarrow> (Panic, w, [])
      | Some m \<Rightarrow>
          (case assert_string (index m ''node'') of
             None \<Rightarrow> (Panic, w, [])
           | Some nodeName \<Rightarrow>
               emit [Println [Str nodeName]]
                 (case ListStorages env w cl nodeName of
                    (Inl err, w') \<Rightarrow>
                      (Exit 1, w',
                       [Call cl (CallListStorages nodeName),
                        Log_Printf (''Failed to fetch storages for node %s: %s'' @ nl)
                          [Str nodeName, Str err]])
                  | (Inr storages, w') \<Rightarrow>
                      (case listStorages_storages storages of
                         (oc, t) \<Rightarrow> (oc, w', Call cl (CallListStorages nodeName) # t)))))"

text \<open>Line 164: the inner loop, over the nodes of one value of the node listing.\<close>

fun listStorages_nodes ::
  "('w, 'r, 'i) proxmox \<Rightarrow> 'w \<Rightarrow> client \<Rightarrow> dyn list \<Rightarrow> ('w, 'r, 'i) run" where
  "listStorages_nodes env w cl [] = (Return, w, [])"
| "listStorages_nodes env w cl (node # rest) =
     and_then (listStorages_node env w cl node) (\<lambda>w'. listStorages_nodes env w' cl rest)"

text \<open>Line 163: the outer loop.\<close>

fun listStorages_infos ::
  "('w, 'r, 'i) proxmox \<Rightarrow> 'w \<Rightarrow> client \<Rightarrow> dyn list \<Rightarrow> ('w, 'r, 'i) run" where
  "listStorages_infos env w cl [] = (Return, w, [])"
| "listStorages_infos env w cl (nodeInfo # rest) =
     (case assert_list nodeInfo of
        None \<Rightarrow> (Panic, w, [])
      | Some nodes \<Rightarrow>
          and_then (listStorages_nodes env w cl nodes)
            (\<lambda>w'. listStorages_infos env w' cl rest))"

definition listStorages :: "('w, 'r, 'i) proxmox \<Rightarrow> 'w \<Rightarrow> client \<Rightarrow> ('w, 'r, 'i) run" where
  "listStorages env w cl =
     (case GetNodeList env w cl of
        (Inl err, w') \<Rightarrow>
          (Exit 1, w', [Call cl CallGetNodeList, Log_Println [Str ''Failed to list nodes'', Str err]])
      | (Inr nodes, w') \<Rightarrow>
          emit [Call cl CallGetNodeList] (listStorages_infos env w' cl nodes))"

subsection \<open>Listing virtual machines\<close>

text \<open>Lines 204 to 208: the attributes of one machine, the key \<open>name\<close> left out.\<close>

fun listVMs_attrs :: "(string \<times> dyn) list \<Rightarrow> ('r, 'i) event list" where
  "listVMs_attrs [] = []"
| "listVMs_attrs ((vmAttr, vmAttrVal) # rest) =
     (if vmAttr \<noteq> ''name''
      then [Printf (tab @ ''%s: %+v'' @ nl) [Str vmAttr, Dyn vmAttrVal]]
      else []) @ listVMs_attrs rest"

text \<open>Lines 219 to 221: the configuration of one machine.\<close>

fun listVMs_config :: "(string \<times> dyn) list \<Rightarrow> ('r, 'i) event list" where
  "listVMs_config [] = []"
| "listVMs_config ((vmConfigAttr, vmConfigAttrValue) # rest) =
     Printf (tab @ ''%s: %+v'' @ nl) [Str vmConfigAttr, Dyn vmConfigAttrValue]
       # listVMs_config rest"

text \<open>Lines 225 to 231: what is printed for the answer of the guest agent.\<close>

fun listVMs_agent :: "string + 'i list \<Rightarrow> ('r, 'i) event list" where
  "listVMs_agent (Inl err) = [Println [Str (tab @ ''Not available:''), Str err]]"
| "listVMs_agent (Inr agentNetworkInterfaces) =
     map (\<lambda>agentNetworkInterface. Println [Str tab, Iface agentNetworkInterface])
       agentNetworkInterfaces"

text \<open>Lines 201 to 231: the body of the inner loop, for one machine.\<close>

definition listVMs_vm ::
  "('w, 'r, 'i) proxmox \<Rightarrow> 'w \<Rightarrow> client \<Rightarrow> dyn \<Rightarrow> ('w, 'r, 'i) run" where
  "listVMs_vm env w cl vm =
     (case assert_map vm of
        None \<Rightarrow> (Panic, w, [])
      | Some m \<Rightarrow>
          (let name = fst (string_ok (index m ''name'')) in
           emit (Println [Str name] # Println [Str '' Status:''] # listVMs_attrs m)
             (case GetVmRefByName env w cl name of
                (Inl err, w1) \<Rightarrow>
                  (Exit 1, w1,
                   [Call cl (CallGetVmRefByName name),
                    Log_Println [Str ''Failed to get VM reference'', Str err]])
              | (Inr vmRef, w1) \<Rightarrow>
                  emit [Call cl (CallGetVmRefByName name)]
                    (case GetVmConfig env w1 cl vmRef of
                       (Inl err, w2) \<Rightarrow>
                         (Exit 1, w2,
                          [Call cl (CallGetVmConfig vmRef),
                           Log_Println [Str ''Failed to get VM config'', Str err]])
                     | (Inr vmConfig, w2) \<Rightarrow>
                         emit (Call cl (CallGetVmConfig vmRef) # Println [Str '' Config:'']
                                 # listVMs_config vmConfig
                               @ [Println [Str '' Agent network interfaces:'']])
                           (case GetVmAgentNetworkInterfaces env w2 cl vmRef of
                              (res, w3) \<Rightarrow>
                                (Return, w3,
                                 Call cl (CallGetVmAgentNetworkInterfaces vmRef)
                                   # listVMs_agent res))))))"

text \<open>Line 200: the inner loop.\<close>

fun listVMs_vms ::
  "('w, 'r, 'i) proxmox \<Rightarrow> 'w \<Rightarrow> client \<Rightarrow> dyn list \<Rightarrow> ('w, 'r, 'i) run" where
  "listVMs_vms env w cl [] = (Return, w, [])"
| "listVMs_vms env w cl (vm # rest) =
     and_then (listVMs_vm env w cl vm) (\<lambda>w'. listVMs_vms env w' cl rest)"

text \<open>Line 199: the outer loop.\<close>

fun listVMs_infos ::
  "('w, 'r, 'i) proxmox \<Rightarrow> 'w \<Rightarrow> client \<Rightarrow> dyn list \<Rightarrow> ('w, 'r, 'i) run" where
  "listVMs_infos env w cl [] = (Return, w, [])"
| "listVMs_infos env w cl (vmInfo # rest) =
     (case assert_list vmInfo of
        None \<Rightarrow> (Panic, w, [])
      | Some vms \<Rightarrow>
          and_then (listVMs_vms env w cl vms) (\<lambda>w'. listVMs_infos env w' cl rest))"

definition listVMs :: "('w, 'r, 'i) proxmox \<Rightarrow> 'w \<Rightarrow> client \<Rightarrow> ('w, 'r, 'i) run" where
  "listVMs env w cl =
     (case GetVmList env w cl of
        (Inl err, w') \<Rightarrow>
          (Exit 1, w', [Call cl CallGetVmList, Log_Println [Str ''Failed to list VMs'', Str err]])
      | (Inr vms, w') \<Rightarrow> emit [Call cl CallGetVmList] (listVMs_infos env w' cl vms))"

subsection \<open>Clusters\<close>

definition listClusters :: "'w \<Rightarrow> client \<Rightarrow> ('w, 'r, 'i) run" where
  "listClusters w cl =
     (Exit 1, w, [Log_Println [Str ''Cluster operations are not yet supported :('']])"

subsection \<open>The main function\<close>

text \<open>The flags after \<open>flag.Parse\<close>; the defaults are those of lines 46 to 52.\<close>

record flags =
  username :: string
  password :: string
  otp :: string
  serverURL :: string
  skipTLSVerify :: bool
  debug :: bool
  realm :: string

definition default_flags :: flags where
  "default_flags =
     \<lparr>username = ''root'', password = ''bad-password'', otp = [],
      serverURL = ''https://localhost:8006/api2/json'',
      skipTLSVerify = False, debug = False, realm = ''pam''\<rparr>"

text \<open>\<open>flag.Arg(i)\<close>: the empty string when there is no such argument.\<close>

definition Arg :: "string list \<Rightarrow> nat \<Rightarrow> string" where
  "Arg args i = (if i < length args then args ! i else [])"

text \<open>Lines 90 to 93.\<close>

definition usernameWithRealm :: "string \<Rightarrow> string \<Rightarrow> string" where
  "usernameWithRealm user rlm =
     (if CHR ''@'' \<notin> set user then user @ ''@'' @ rlm else user)"

text \<open>Lines 65 to 72: the operands of the debug line.\<close>

definition debug_operands :: "flags \<Rightarrow> 'i operand list" where
  "debug_operands fl =
     [Str ''Connecting to'', Ptr_serverURL,
      Str ''with username'', Str (username fl),
      Str ''and password'', Str (password fl),
      Str ''while skipping tls?'',
      Str (if skipTLSVerify fl then ''true'' else ''false'')]"

text \<open>Lines 63 to 74.\<close>

definition debug_log :: "flags \<Rightarrow> ('r, 'i) event list" where
  "debug_log fl = (if debug fl then [Log_Println (debug_operands fl)] else [])"

text \<open>Lines 76 to 83.\<close>

definition httpClient :: "flags \<Rightarrow> http_client" where
  "httpClient fl =
     (if skipTLSVerify fl then DefaultClient\<lparr>InsecureSkipVerify := True\<rparr>
      else DefaultClient)"

text \<open>Lines 100 to 124: the switch on the command.\<close>

definition dispatch ::
  "('w, 'r, 'i) proxmox \<Rightarrow> 'w \<Rightarrow> client \<Rightarrow> string \<Rightarrow> string list \<Rightarrow> ('w, 'r, 'i) run" where
  "dispatch env w cl prog args =
     (let command = Arg args 0 in
      if command = ''h'' \<or> command = ''help'' then
        (if length args = 2 then (Exit 0, w, help_command prog command)
         else (Exit 0, w, usage prog))
      else if command = ''l'' \<or> command = ''ls'' \<or> command = ''list'' then
        (let what = Arg args 1 in
         if what = ''c'' \<or> what = ''cluster'' \<or> what = ''clusters'' then listClusters w cl
         else if what = ''n'' \<or> what = ''node'' \<or> what = ''nodes'' then listNodes env w cl
         else if what = ''s'' \<or> what = ''storage'' then listStorages env w cl
         else if what = ''v'' \<or> what = ''vm'' \<or> what = ''vms'' then listVMs env w cl
         else (Exit 0, w, help_command prog command))
      else (Return, w, []))"

text \<open>Line 85: the client that \<open>proxmox.NewClient\<close> is asked for.\<close>

definition client_args :: "flags \<Rightarrow> client" where
  "client_args fl = \<lparr>ApiUrl = serverURL fl, HttpClient = httpClient fl, TaskTimeout = 10\<rparr>"

text \<open>
  \<open>main\<close>, from line 56 on: \<open>prog\<close> is \<open>os.Args[0]\<close>, \<open>fl\<close> the parsed flags and \<open>args\<close>
  the arguments that are not flags.
\<close>

definition main ::
  "('w, 'r, 'i) proxmox \<Rightarrow> 'w \<Rightarrow> string \<Rightarrow> flags \<Rightarrow> string list \<Rightarrow> ('w, 'r, 'i) run" where
  "main env w prog fl args =
     (if Arg args 0 = [] then (Exit 1, w, usage prog)
      else
        emit (debug_log fl)
          (let client = client_args fl;
               principal = usernameWithRealm (username fl) (realm fl) in
           case NewClient env w client of
             (Some err, w1) \<Rightarrow>
               (Exit 1, w1,
                [Call client CallNewClient, Log_Println [Str ''Failed to create client'', Str err]])
           | (None, w1) \<Rightarrow>
               emit [Call client CallNewClient]
                 (case Login env w1 client principal (password fl) (otp fl) of
                    (Some err, w2) \<Rightarrow>
                      (Exit 1, w2,
                       [Call client (CallLogin principal (password fl) (otp fl)),
                        Log_Println [Str ''Failed to login'', Str err]])
                  | (None, w2) \<Rightarrow>
                      emit [Call client (CallLogin principal (password fl) (otp fl))]
                        (dispatch env w2 client prog args))))"

subsection \<open>The command line\<close>

text \<open>
  Lines 46 to 54 declare the flags and call \<open>flag.Parse\<close>, which reads the arguments of
  the process and ends it when it cannot read them: the flag set of the command line
  has the error handling \<open>ExitOnError\<close>. The functions below follow \<open>parseOne\<close> and
  \<open>Parse\<close> of the package \<open>flag\<close> of the Go library, for the seven flags of the program.
\<close>

text \<open>\<open>strconv.ParseBool\<close>, which reads the value of a boolean flag.\<close>

definition ParseBool :: "string \<Rightarrow> bool option" where
  "ParseBool v =
     (if v \<in> set [''1'', ''t'', ''T'', ''TRUE'', ''true'', ''True''] then Some True
      else if v \<in> set [''0'', ''f'', ''F'', ''FALSE'', ''false'', ''False''] then Some False
      else None)"

text \<open>
  The name of a flag and its value, when the argument holds the sign \<open>=\<close> after its
  first character.
\<close>

definition split_value :: "string \<Rightarrow> string \<times> string option" where
  "split_value name =
     (let before = takeWhile (\<lambda>c. c \<noteq> CHR ''='') (tl name);
          after = dropWhile (\<lambda>c. c \<noteq> CHR ''='') (tl name)
      in (hd name # before, if after = [] then None else Some (tl after)))"

text \<open>Lines 46 to 49 and 52: the flags declared with \<open>flag.String\<close>.\<close>

definition set_string :: "string \<Rightarrow> string \<Rightarrow> flags \<Rightarrow> flags option" where
  "set_string name value fl =
     (if name = ''username'' then Some (fl\<lparr>username := value\<rparr>)
      else if name = ''password'' then Some (fl\<lparr>password := value\<rparr>)
      else if name = ''otp'' then Some (fl\<lparr>otp := value\<rparr>)
      else if name = ''server'' then Some (fl\<lparr>serverURL := value\<rparr>)
      else if name = ''realm'' then Some (fl\<lparr>realm := value\<rparr>)
      else None)"

text \<open>Lines 50 and 51: the flags declared with \<open>flag.Bool\<close>.\<close>

definition set_bool :: "string \<Rightarrow> bool \<Rightarrow> flags \<Rightarrow> flags option" where
  "set_bool name value fl =
     (if name = ''skiptls'' then Some (fl\<lparr>skipTLSVerify := value\<rparr>)
      else if name = ''debug'' then Some (fl\<lparr>debug := value\<rparr>)
      else None)"

text \<open>
  How \<open>flag.Parse\<close> ends: with the flags and the arguments that are left, with the help
  that \<open>-h\<close> or \<open>-help\<close> asks for, or with an error.
\<close>

datatype parse_result = Parsed flags "string list" | Help_requested | Bad_flags

fun Parse :: "flags \<Rightarrow> string list \<Rightarrow> parse_result" where
  "Parse fl [] = Parsed fl []"
| "Parse fl (s # rest) =
     (if length s < 2 \<or> hd s \<noteq> CHR ''-'' then Parsed fl (s # rest)
      else if s = ''--'' then Parsed fl rest
      else
        (let name = (if s ! 1 = CHR ''-'' then drop 2 s else drop 1 s) in
         if name = [] \<or> hd name = CHR ''-'' \<or> hd name = CHR ''='' then Bad_flags
         else
           (case split_value name of
              (name, value) \<Rightarrow>
                (if name = ''skiptls'' \<or> name = ''debug'' then
                   (case value of
                      None \<Rightarrow>
                        (case set_bool name True fl of
                           None \<Rightarrow> Bad_flags
                         | Some fl' \<Rightarrow> Parse fl' rest)
                    | Some v \<Rightarrow>
                        (case ParseBool v of
                           None \<Rightarrow> Bad_flags
                         | Some b \<Rightarrow>
                             (case set_bool name b fl of
                                None \<Rightarrow> Bad_flags
                              | Some fl' \<Rightarrow> Parse fl' rest)))
                 else if name = ''username'' \<or> name = ''password'' \<or> name = ''otp'' \<or>
                         name = ''server'' \<or> name = ''realm'' then
                   (case value of
                      Some v \<Rightarrow>
                        (case set_string name v fl of
                           None \<Rightarrow> Bad_flags
                         | Some fl' \<Rightarrow> Parse fl' rest)
                    | None \<Rightarrow>
                        (case rest of
                           [] \<Rightarrow> Bad_flags
                         | v # rest' \<Rightarrow>
                             (case set_string name v fl of
                                None \<Rightarrow> Bad_flags
                              | Some fl' \<Rightarrow> Parse fl' rest')))
                 else if name = ''help'' \<or> name = ''h'' then Help_requested
                 else Bad_flags))))"

text \<open>
  The program, from the arguments \<open>argv\<close> of the process after its name: \<open>flag.Parse\<close>
  ends the process with the status 2 when it cannot read the flags and with the
  status 0 after the help (2 before Go 1.15); what the package \<open>flag\<close> itself prints
  then is not recorded in the trace.
\<close>

definition process ::
  "('w, 'r, 'i) proxmox \<Rightarrow> 'w \<Rightarrow> string \<Rightarrow> string list \<Rightarrow> ('w, 'r, 'i) run" where
  "process env w prog argv =
     (case Parse default_flags argv of
        Parsed fl args \<Rightarrow> main env w prog fl args
      | Help_requested \<Rightarrow> (Exit 0, w, [])
      | Bad_flags \<Rightarrow> (Exit 2, w, []))"

subsection \<open>The text of a line\<close>

text \<open>
  \<open>fmt.Sprintln\<close>: the operands in their default format, a space between any two of
  them, and a newline. The default format of a string is the string; the format of
  the other operands is the parameter \<open>fmt\<close>.
\<close>

fun join_operands :: "string list \<Rightarrow> string" where
  "join_operands [] = []"
| "join_operands [s] = s"
| "join_operands (s # s' # rest) = s @ '' '' @ join_operands (s' # rest)"

fun default_format :: "('i operand \<Rightarrow> string) \<Rightarrow> 'i operand \<Rightarrow> string" where
  "default_format fmt (Str s) = s"
| "default_format fmt x = fmt x"

definition Sprintln :: "('i operand \<Rightarrow> string) \<Rightarrow> 'i operand list \<Rightarrow> string" where
  "Sprintln fmt ops = join_operands (map (default_format fmt) ops) @ nl"

text \<open>The diagnostics of a run: what went to the logger (standard error).\<close>

fun is_log :: "('r, 'i) event \<Rightarrow> bool" where
  "is_log (Log_Println ops) = True"
| "is_log (Log_Printf f ops) = True"
| "is_log _ = False"

definition trace :: "('w, 'r, 'i) run \<Rightarrow> ('r, 'i) event list" where
  "trace r = snd (snd r)"

definition diagnostics :: "('w, 'r, 'i) run \<Rightarrow> ('r, 'i) event list" where
  "diagnostics r = filter is_log (trace r)"

text \<open>An event that is not a call of the client, or is one through the client \<open>cl\<close>.\<close>

fun through :: "client \<Rightarrow> ('r, 'i) event \<Rightarrow> bool" where
  "through cl (Call c a) = (c = cl)"
| "through cl _ = True"

text \<open>
  The events of the calls of \<open>log.Fatalln\<close> and \<open>log.Fatalf\<close> of the program, in the
  order of lines 87, 97, 129, 143 (and 161), 169, 197, 212 and 216. The predicate is
  used to state what a run may log, and is not evaluated.
\<close>

definition fatal_message :: "('r, 'i) event \<Rightarrow> bool" where
  "fatal_message e \<longleftrightarrow>
     (\<exists>err. e = Log_Println [Str ''Failed to create client'', Str err]) \<or>
     (\<exists>err. e = Log_Println [Str ''Failed to login'', Str err]) \<or>
     e = Log_Println [Str ''Cluster operations are not yet supported :(''] \<or>
     (\<exists>err. e = Log_Println [Str ''Failed to list nodes'', Str err]) \<or>
     (\<exists>nodeName err.
        e = Log_Printf (''Failed to fetch storages for node %s: %s'' @ nl)
              [Str nodeName, Str err]) \<or>
     (\<exists>err. e = Log_Println [Str ''Failed to list VMs'', Str err]) \<or>
     (\<exists>err. e = Log_Println [Str ''Failed to get VM reference'', Str err]) \<or>
     (\<exists>err. e = Log_Println [Str ''Failed to get VM config'', Str err])"

text \<open>
  A run that does not call the logger, or calls it once, with a fatal message, as the
  last thing it does, and ends with the exit status 1.
\<close>

definition quiet_or_fatal :: "('w, 'r, 'i) run \<Rightarrow> bool" where
  "quiet_or_fatal r =
     (case filter is_log (trace r) of
        [] \<Rightarrow> True
      | [e] \<Rightarrow> fst r = Exit 1 \<and> fatal_message e \<and> last (trace r) = e
      | _ \<Rightarrow> False)"

subsection \<open>An example server\<close>

text \<open>
  A server with two nodes, of which \<open>b\<close> does not answer the storage listing, and one
  virtual machine, \<open>vm1\<close>, whose guest agent is not running; it knows no reference of
  any other name. It accepts the password \<open>secret\<close>. The state of the world is the number of calls made so far; a reference
  to a machine is its name.
\<close>

definition example_env :: "(nat, string, string) proxmox" where
  "example_env =
     \<lparr>NewClient = (\<lambda>w cl. (None, Suc w)),
      Login = (\<lambda>w cl user pass code.
        (if pass = ''secret'' then None else Some ''authentication failure'', Suc w)),
      GetNodeList = (\<lambda>w cl.
        (Inr [DList [DMap [(''node'', DString ''a''), (''cpu'', DNumber 4)],
                     DMap [(''node'', DString ''b''), (''cpu'', DNumber 2)]]], Suc w)),
      ListStorages = (\<lambda>w cl node.
        (if node = ''a''
         then Inr [DMap [(''storage'', DString ''local''), (''type'', DString ''dir'')]]
         else Inl ''node offline'', Suc w)),
      GetVmList = (\<lambda>w cl. (Inr [DList [DMap [(''name'', DString ''vm1'')]]], Suc w)),
      GetVmRefByName = (\<lambda>w cl name.
        (if name = ''vm1'' then Inr name else Inl ''vm not found'', Suc w)),
      GetVmConfig = (\<lambda>w cl vmRef. (Inr [(''cores'', DNumber 2)], Suc w)),
      GetVmAgentNetworkInterfaces = (\<lambda>w cl vmRef.
        (Inl ''QEMU guest agent is not running'', Suc w))\<rparr>"

definition example_flags :: flags where
  "example_flags = default_flags\<lparr>password := ''secret''\<rparr>"

section \<open>Properties\<close>

subsection \<open>Sequencing\<close>

lemma emit_simp: "emit t (oc, w, t') = (oc, w, t @ t')"
  by (simp add: emit_def)

lemma emit_Nil: "emit [] r = r"
  by (cases r) (simp add: emit_def)

lemma emit_emit: "emit t (emit t' r) = emit (t @ t') r"
  by (cases r) (simp add: emit_def)

lemma fst_emit: "fst (emit t r) = fst r"
  by (cases r) (simp add: emit_def)

lemma trace_emit: "trace (emit t r) = t @ trace r"
  by (cases r) (simp add: emit_def trace_def)

lemma trace_simp: "trace (oc, w, t) = t"
  by (simp add: trace_def)

lemma and_then_Return: "and_then (Return, w, t) k = emit t (k w)"
  by (simp add: and_then_def)

lemma and_then_stop: "oc \<noteq> Return \<Longrightarrow> and_then (oc, w, t) k = (oc, w, t)"
  by (cases oc) (simp_all add: and_then_def)

lemma and_then_emit: "and_then (emit t r) k = emit t (and_then r k)"
proof (cases r)
  case (fields oc w t')
  then show ?thesis
    by (cases oc) (simp_all add: and_then_def emit_def split: prod.splits)
qed

lemma and_then_assoc:
  "and_then (and_then r k) k' = and_then r (\<lambda>w. and_then (k w) k')"
proof (cases r)
  case (fields oc w t)
  then show ?thesis
    by (cases oc) (simp_all add: and_then_Return and_then_stop and_then_emit)
qed

subsection \<open>The principal\<close>

lemma main_login_call:
  assumes "Arg args 0 \<noteq> []" and "NewClient env w (client_args fl) = (None, wa)"
  shows "Call (client_args fl)
           (CallLogin (usernameWithRealm (username fl) (realm fl)) (password fl) (otp fl))
         \<in> set (trace (main env w prog fl args))"
proof -
  let ?p = "usernameWithRealm (username fl) (realm fl)"
  obtain e wb where l: "Login env wa (client_args fl) ?p (password fl) (otp fl) = (e, wb)"
    by (cases "Login env wa (client_args fl) ?p (password fl) (otp fl)")
  from assms l show ?thesis
    by (cases e) (simp_all add: main_def Let_def trace_emit trace_simp)
qed

text \<open>
  C1. A user name that contains \<open>@\<close> is passed on as it is, whatever the realm; any
  other user name is followed by \<open>@\<close> and the realm. So \<open>root\<close> in the realm \<open>pam\<close> is
  \<open>root@pam\<close>, and \<open>root@pve\<close> stays \<open>root@pve\<close>. This is the principal that \<open>main\<close>
  presents at the login, once the client is created.
\<close>

theorem usernameWithRealm_cases:
  "(CHR ''@'' \<in> set u \<longrightarrow> usernameWithRealm u r = u) \<and>
   (CHR ''@'' \<notin> set u \<longrightarrow> usernameWithRealm u r = u @ ''@'' @ r) \<and>
   usernameWithRealm ''root'' ''pam'' = ''root@pam'' \<and>
   usernameWithRealm ''root@pve'' ''pam'' = ''root@pve'' \<and>
   (Arg args 0 \<noteq> [] \<and> NewClient env w (client_args fl) = (None, wa) \<longrightarrow>
      Call (client_args fl)
        (CallLogin (usernameWithRealm (username fl) (realm fl)) (password fl) (otp fl))
      \<in> set (trace (main env w prog fl args)))"
  by (simp add: usernameWithRealm_def main_login_call [unfolded usernameWithRealm_def])

theorem usernameWithRealm_cases_witness:
  "CHR ''@'' \<in> set ''root@pve'' \<and> usernameWithRealm ''root@pve'' ''pam'' = ''root@pve'' \<and>
   CHR ''@'' \<notin> set ''root'' \<and> usernameWithRealm ''root'' ''pam'' = ''root'' @ ''@'' @ ''pam'' \<and>
   Arg [''list'', ''node''] 0 \<noteq> [] \<and>
   NewClient example_env 0 (client_args example_flags) = (None, 1) \<and>
   Call (client_args example_flags) (CallLogin ''root@pam'' ''secret'' [])
     \<in> set (trace (main example_env 0 ''cli'' example_flags [''list'', ''node'']))"
proof -
  have a: "Arg [''list'', ''node''] 0 \<noteq> [] \<and>
      NewClient example_env 0 (client_args example_flags) = (None, 1)"
    by (simp add: Arg_def example_env_def)
  note T = usernameWithRealm_cases [of "''root@pve''" "''pam''" "[''list'', ''node'']"
      example_env 0 example_flags 1 "''cli''"]
  from T [THEN conjunct2, THEN conjunct2, THEN conjunct2, THEN conjunct2, THEN mp, OF a]
  have c: "Call (client_args example_flags) (CallLogin ''root@pam'' ''secret'' [])
     \<in> set (trace (main example_env 0 ''cli'' example_flags [''list'', ''node'']))"
    by (simp add: example_flags_def default_flags_def usernameWithRealm_def)
  from T usernameWithRealm_cases [of "''root''" "''pam''" "[]" example_env 0 example_flags 1 "''cli''"]
    a c
  show ?thesis by simp
qed

text \<open>
  C2, as stated, fails: the realm is appended as it is, so a realm that contains \<open>@\<close>
  gives a principal with more than one \<open>@\<close>.
\<close>

theorem one_at_counterexample:
  "''root'' \<noteq> [] \<and> CHR ''@'' \<notin> set ''root'' \<and>
   usernameWithRealm ''root'' ''p@m'' = ''root@p@m'' \<and>
   count_list (usernameWithRealm ''root'' ''p@m'') CHR ''@'' \<noteq> 1"
  by (simp add: usernameWithRealm_def)

text \<open>
  C2, amended: when neither the user name nor the realm contains \<open>@\<close>, the principal
  contains exactly one \<open>@\<close>, between the user name and the realm.
\<close>

theorem one_at:
  "CHR ''@'' \<notin> set u \<Longrightarrow> CHR ''@'' \<notin> set r \<Longrightarrow>
   count_list (usernameWithRealm u r) CHR ''@'' = 1 \<and>
   usernameWithRealm u r = u @ ''@'' @ r"
  by (simp add: usernameWithRealm_def count_list_0_iff)

theorem one_at_witness:
  "CHR ''@'' \<notin> set ''root'' \<and> CHR ''@'' \<notin> set ''pam'' \<and>
   count_list (usernameWithRealm ''root'' ''pam'') CHR ''@'' = 1"
  using one_at [of "''root''" "''pam''"] by simp

subsection \<open>Rendering a record\<close>

lemma listNodes_attrs_filter:
  "listNodes_attrs m =
     map (\<lambda>(k, v). Println [Str tab, Str k, Str '':'', Dyn v])
       (filter (\<lambda>(k, v). k \<noteq> ''node'') m)"
  by (induction m) auto

lemma listStorages_attrs_filter:
  "listStorages_attrs m =
     map (\<lambda>(k, v). Printf (tab @ tab @ ''%s:%+v'' @ nl) [Str k, Dyn v])
       (filter (\<lambda>(k, v). k \<noteq> ''storage'') m)"
  by (induction m) auto

lemma listVMs_attrs_filter:
  "listVMs_attrs m =
     map (\<lambda>(k, v). Printf (tab @ ''%s: %+v'' @ nl) [Str k, Dyn v])
       (filter (\<lambda>(k, v). k \<noteq> ''name'') m)"
  by (induction m) auto

text \<open>
  C6. Take a record that is a map and holds the string \<open>name\<close> under its identity key.
  For a node (key \<open>node\<close>) the first line printed is the name alone; the lines after it
  are one line \<open>tab key : value\<close> for every entry whose key is not \<open>node\<close>, and nothing
  else, so that no line of the body has the key \<open>node\<close>; the block of the next record
  follows. In the same way a storage (key \<open>storage\<close>) and a virtual machine (key
  \<open>name\<close>) print the name first and then a line for every entry but that of the
  identity key; for a machine the line \<open>Status:\<close> stands between the two.
\<close>

theorem identity_first:
  fixes env :: "('w, 'r, 'i) proxmox"
  assumes "assert_map item = Some m" and "index m key = DString name"
  shows "(key = ''node'' \<longrightarrow>
            listNodes_node item =
              (Return, Println [Str name] # (listNodes_attrs m :: ('r, 'i) event list)) \<and>
            listNodes_nodes (item # rest) =
              (case listNodes_nodes rest of
                 (oc, t) \<Rightarrow>
                   (oc, Println [Str name] # (listNodes_attrs m :: ('r, 'i) event list) @ t)) \<and>
            (\<forall>e \<in> set (listNodes_attrs m). \<exists>k v.
               (k, v) \<in> set m \<and> k \<noteq> ''node'' \<and>
               e = (Println [Str tab, Str k, Str '':'', Dyn v] :: ('r, 'i) event)) \<and>
            (\<forall>k v. (k, v) \<in> set m \<and> k \<noteq> ''node'' \<longrightarrow>
               (Println [Str tab, Str k, Str '':'', Dyn v] :: ('r, 'i) event)
                 \<in> set (listNodes_attrs m)) \<and>
            (\<forall>v. (Println [Str tab, Str ''node'', Str '':'', Dyn v] :: ('r, 'i) event)
                 \<notin> set (listNodes_attrs m))) \<and>
         (key = ''storage'' \<longrightarrow>
            listStorages_storage item =
              (Return,
               Println [Str tab, Str name] # (listStorages_attrs m :: ('r, 'i) event list)) \<and>
            (\<forall>e \<in> set (listStorages_attrs m). \<exists>k v.
               (k, v) \<in> set m \<and> k \<noteq> ''storage'' \<and>
               e = (Printf (tab @ tab @ ''%s:%+v'' @ nl) [Str k, Dyn v] :: ('r, 'i) event)) \<and>
            (\<forall>k v. (k, v) \<in> set m \<and> k \<noteq> ''storage'' \<longrightarrow>
               (Printf (tab @ tab @ ''%s:%+v'' @ nl) [Str k, Dyn v] :: ('r, 'i) event)
                 \<in> set (listStorages_attrs m))) \<and>
         (key = ''name'' \<longrightarrow>
            (\<exists>t. trace (listVMs_vm env w cl item) =
               Println [Str name] # Println [Str '' Status:''] # listVMs_attrs m @ t) \<and>
            (\<forall>e \<in> set (listVMs_attrs m). \<exists>k v.
               (k, v) \<in> set m \<and> k \<noteq> ''name'' \<and>
               e = Printf (tab @ ''%s: %+v'' @ nl) [Str k, Dyn v]) \<and>
            (\<forall>k v. (k, v) \<in> set m \<and> k \<noteq> ''name'' \<longrightarrow>
               Printf (tab @ ''%s: %+v'' @ nl) [Str k, Dyn v] \<in> set (listVMs_attrs m)))"
proof (intro conjI impI)
  assume key: "key = ''node''"
  show node: "listNodes_node item =
      (Return, Println [Str name] # (listNodes_attrs m :: ('r, 'i) event list))"
    using assms key by (simp add: listNodes_node_def)
  show "listNodes_nodes (item # rest) =
           (case listNodes_nodes rest of
              (oc, t) \<Rightarrow>
                (oc, Println [Str name] # (listNodes_attrs m :: ('r, 'i) event list) @ t))"
    by (simp add: node split: prod.splits)
  show "\<forall>e \<in> set (listNodes_attrs m). \<exists>k v.
            (k, v) \<in> set m \<and> k \<noteq> ''node'' \<and>
            e = (Println [Str tab, Str k, Str '':'', Dyn v] :: ('r, 'i) event)"
    by (auto simp: listNodes_attrs_filter)
  show "\<forall>k v. (k, v) \<in> set m \<and> k \<noteq> ''node'' \<longrightarrow>
            (Println [Str tab, Str k, Str '':'', Dyn v] :: ('r, 'i) event)
              \<in> set (listNodes_attrs m)"
    by (force simp: listNodes_attrs_filter)
  show "\<forall>v. (Println [Str tab, Str ''node'', Str '':'', Dyn v] :: ('r, 'i) event)
            \<notin> set (listNodes_attrs m)"
    by (auto simp: listNodes_attrs_filter)
next
  assume key: "key = ''storage''"
  show "listStorages_storage item =
      (Return, Println [Str tab, Str name] # (listStorages_attrs m :: ('r, 'i) event list))"
    using assms key by (simp add: listStorages_storage_def)
  show "\<forall>e \<in> set (listStorages_attrs m). \<exists>k v.
               (k, v) \<in> set m \<and> k \<noteq> ''storage'' \<and>
               e = (Printf (tab @ tab @ ''%s:%+v'' @ nl) [Str k, Dyn v] :: ('r, 'i) event)"
    by (auto simp: listStorages_attrs_filter)
  show "\<forall>k v. (k, v) \<in> set m \<and> k \<noteq> ''storage'' \<longrightarrow>
               (Printf (tab @ tab @ ''%s:%+v'' @ nl) [Str k, Dyn v] :: ('r, 'i) event)
                 \<in> set (listStorages_attrs m)"
    by (force simp: listStorages_attrs_filter)
next
  assume key: "key = ''name''"
  show "\<exists>t. trace (listVMs_vm env w cl item) =
               Println [Str name] # Println [Str '' Status:''] # listVMs_attrs m @ t"
    using assms key by (simp add: listVMs_vm_def Let_def trace_emit)
  show "\<forall>e \<in> set (listVMs_attrs m). \<exists>k v.
               (k, v) \<in> set m \<and> k \<noteq> ''name'' \<and>
               e = Printf (tab @ ''%s: %+v'' @ nl) [Str k, Dyn v]"
    by (auto simp: listVMs_attrs_filter)
  show "\<forall>k v. (k, v) \<in> set m \<and> k \<noteq> ''name'' \<longrightarrow>
               Printf (tab @ ''%s: %+v'' @ nl) [Str k, Dyn v] \<in> set (listVMs_attrs m)"
    by (force simp: listVMs_attrs_filter)
qed

theorem identity_first_witness:
  "assert_map (DMap [(''node'', DString ''a''), (''cpu'', DNumber 4)])
     = Some [(''node'', DString ''a''), (''cpu'', DNumber 4)] \<and>
   index [(''node'', DString ''a''), (''cpu'', DNumber 4)] ''node'' = DString ''a'' \<and>
   listNodes_nodes
     [DMap [(''node'', DString ''a''), (''cpu'', DNumber 4)],
      DMap [(''node'', DString ''b''), (''cpu'', DNumber 2)]] =
     (Return,
      [Println [Str ''a''], Println [Str tab, Str ''cpu'', Str '':'', Dyn (DNumber 4)],
       Println [Str ''b''], Println [Str tab, Str ''cpu'', Str '':'', Dyn (DNumber 2)]
       :: (string, string) event]) \<and>
   assert_map (DMap [(''type'', DString ''dir''), (''storage'', DString ''local'')])
     = Some [(''type'', DString ''dir''), (''storage'', DString ''local'')] \<and>
   index [(''type'', DString ''dir''), (''storage'', DString ''local'')] ''storage''
     = DString ''local'' \<and>
   listStorages_storage (DMap [(''type'', DString ''dir''), (''storage'', DString ''local'')]) =
     (Return,
      [Println [Str tab, Str ''local''],
       Printf (tab @ tab @ ''%s:%+v'' @ nl) [Str ''type'', Dyn (DString ''dir'')]
       :: (string, string) event]) \<and>
   assert_map (DMap [(''name'', DString ''vm1''), (''vmid'', DNumber 100)])
     = Some [(''name'', DString ''vm1''), (''vmid'', DNumber 100)] \<and>
   index [(''name'', DString ''vm1''), (''vmid'', DNumber 100)] ''name'' = DString ''vm1'' \<and>
   take 3 (trace (listVMs_vm example_env 0 (client_args example_flags)
      (DMap [(''name'', DString ''vm1''), (''vmid'', DNumber 100)]))) =
     [Println [Str ''vm1''], Println [Str '' Status:''],
      Printf (tab @ ''%s: %+v'' @ nl) [Str ''vmid'', Dyn (DNumber 100)]]"
proof -
  let ?n = "[(''node'', DString ''a''), (''cpu'', DNumber 4)]"
  let ?b = "[DMap [(''node'', DString ''b''), (''cpu'', DNumber 2)]]"
  let ?s = "[(''type'', DString ''dir''), (''storage'', DString ''local'')]"
  let ?v = "[(''name'', DString ''vm1''), (''vmid'', DNumber 100)]"
  have mn: "assert_map (DMap ?n) = Some ?n" and ms: "assert_map (DMap ?s) = Some ?s"
    and mv: "assert_map (DMap ?v) = Some ?v"
    by simp_all
  have i: "index ?n ''node'' = DString ''a''" and j: "index ?s ''storage'' = DString ''local''"
    and k: "index ?v ''name'' = DString ''vm1''"
    by (simp_all add: index_def)
  note N = identity_first [OF mn i, of ?b example_env 0 "client_args example_flags"]
  note S = identity_first [OF ms j, of "[]" example_env 0 "client_args example_flags"]
  note V = identity_first [OF mv k, of "[]" example_env 0 "client_args example_flags"]
  from N [THEN conjunct1]
  have n: "listNodes_nodes (DMap ?n # ?b) =
     (Return,
      [Println [Str ''a''], Println [Str tab, Str ''cpu'', Str '':'', Dyn (DNumber 4)],
       Println [Str ''b''], Println [Str tab, Str ''cpu'', Str '':'', Dyn (DNumber 2)]
       :: (string, string) event])"
    by (simp add: listNodes_node_def index_def)
  from S [THEN conjunct2, THEN conjunct1]
  have s: "listStorages_storage (DMap ?s) =
     (Return,
      [Println [Str tab, Str ''local''],
       Printf (tab @ tab @ ''%s:%+v'' @ nl) [Str ''type'', Dyn (DString ''dir'')]
       :: (string, string) event])"
    by simp
  from V [THEN conjunct2, THEN conjunct2]
  have "\<exists>t. trace (listVMs_vm example_env 0 (client_args example_flags) (DMap ?v)) =
     Println [Str ''vm1''] # Println [Str '' Status:''] # listVMs_attrs ?v @ t"
    by simp
  then obtain t where
    "trace (listVMs_vm example_env 0 (client_args example_flags) (DMap ?v)) =
     Println [Str ''vm1''] # Println [Str '' Status:''] # listVMs_attrs ?v @ t"
    by (rule exE)
  then have v: "take 3 (trace (listVMs_vm example_env 0 (client_args example_flags) (DMap ?v))) =
     [Println [Str ''vm1''], Println [Str '' Status:''],
      Printf (tab @ ''%s: %+v'' @ nl) [Str ''vmid'', Dyn (DNumber 100)]]"
    by simp
  from mn ms mv i j k n s v show ?thesis by simp
qed

subsection \<open>Storages: the first failure ends the run\<close>

lemma listStorages_nodes_append:
  "listStorages_nodes env w cl (xs @ ys) =
     and_then (listStorages_nodes env w cl xs) (\<lambda>w'. listStorages_nodes env w' cl ys)"
proof (induction xs arbitrary: w)
  case Nil
  show ?case by (simp add: and_then_Return emit_Nil)
next
  case (Cons x xs)
  show ?case by (simp add: Cons.IH and_then_assoc)
qed

lemma listStorages_infos_append:
  "listStorages_infos env w cl (xs @ ys) =
     and_then (listStorages_infos env w cl xs) (\<lambda>w'. listStorages_infos env w' cl ys)"
proof (induction xs arbitrary: w)
  case Nil
  show ?case by (simp add: and_then_Return emit_Nil)
next
  case (Cons x xs)
  show ?case
  proof (cases "assert_list x")
    case None
    then show ?thesis by (simp add: and_then_stop)
  next
    case (Some nodes)
    then show ?thesis by (simp add: Cons.IH and_then_assoc)
  qed
qed

lemma listStorages_node_fails:
  assumes "assert_map node = Some m" and "index m ''node'' = DString nodeName"
    and "ListStorages env w cl nodeName = (Inl err, w')"
  shows "listStorages_node env w cl node =
     (Exit 1, w',
      [Println [Str nodeName], Call cl (CallListStorages nodeName),
       Log_Printf (''Failed to fetch storages for node %s: %s'' @ nl) [Str nodeName, Str err]])"
  using assms by (simp add: listStorages_node_def emit_simp)

text \<open>
  C3. Let the node listing hold the node \<open>node\<close> somewhere, after the values \<open>infos\<close>
  and the nodes \<open>pre\<close>, and let the run through \<open>infos\<close> and \<open>pre\<close> return. When the
  storage listing of \<open>node\<close> fails, the run ends there with exit status 1: the trace
  is that of the nodes before, the name of the node, the call and the fatal message.
  It is the same whatever nodes \<open>post\<close> and values \<open>infos'\<close> come after: nothing is
  called or printed for them.
\<close>

theorem storage_failure_fatal:
  assumes "GetNodeList env w cl = (Inr (infos @ DList (pre @ node # post) # infos'), wa)"
    and "listStorages_infos env wa cl infos = (Return, wb, ta)"
    and "listStorages_nodes env wb cl pre = (Return, wc, tb)"
    and "assert_map node = Some m" and "index m ''node'' = DString nodeName"
    and "ListStorages env wc cl nodeName = (Inl err, wd)"
  shows "listStorages env w cl =
           (Exit 1, wd,
            Call cl CallGetNodeList # ta @ tb @
            [Println [Str nodeName], Call cl (CallListStorages nodeName),
             Log_Printf (''Failed to fetch storages for node %s: %s'' @ nl)
               [Str nodeName, Str err]]) \<and>
         exit_code (fst (listStorages env w cl)) \<noteq> 0"
proof -
  let ?fatal = "[Println [Str nodeName], Call cl (CallListStorages nodeName),
             Log_Printf (''Failed to fetch storages for node %s: %s'' @ nl)
               [Str nodeName, Str err]] :: ('b, 'c) event list"
  have node: "listStorages_node env wc cl node = (Exit 1, wd, ?fatal)"
    using assms(4-6) by (rule listStorages_node_fails)
  have "listStorages_nodes env wc cl (node # post) = (Exit 1, wd, ?fatal)"
    by (simp add: node and_then_stop)
  then have nodes: "listStorages_nodes env wb cl (pre @ node # post) = (Exit 1, wd, tb @ ?fatal)"
    by (simp add: listStorages_nodes_append assms(3) and_then_Return emit_simp)
  have "listStorages_infos env wb cl (DList (pre @ node # post) # infos') =
          (Exit 1, wd, tb @ ?fatal)"
    by (simp add: nodes and_then_stop)
  then have "listStorages_infos env wa cl (infos @ DList (pre @ node # post) # infos') =
          (Exit 1, wd, ta @ tb @ ?fatal)"
    by (simp add: listStorages_infos_append assms(2) and_then_Return emit_simp)
  then have "listStorages env w cl = (Exit 1, wd, Call cl CallGetNodeList # ta @ tb @ ?fatal)"
    by (simp add: listStorages_def assms(1) emit_simp)
  then show ?thesis by simp
qed

theorem storage_failure_fatal_witness:
  "GetNodeList example_env 0 (client_args example_flags) =
     (Inr ([] @ DList ([DMap [(''node'', DString ''a''), (''cpu'', DNumber 4)]] @
              DMap [(''node'', DString ''b''), (''cpu'', DNumber 2)] # []) # []), 1) \<and>
   listStorages_infos example_env 1 (client_args example_flags) [] = (Return, 1, []) \<and>
   listStorages_nodes example_env 1 (client_args example_flags)
       [DMap [(''node'', DString ''a''), (''cpu'', DNumber 4)]] =
     (Return, 2,
      [Println [Str ''a''], Call (client_args example_flags) (CallListStorages ''a''),
       Println [Str tab, Str ''local''],
       Printf (tab @ tab @ ''%s:%+v'' @ nl) [Str ''type'', Dyn (DString ''dir'')]]) \<and>
   assert_map (DMap [(''node'', DString ''b''), (''cpu'', DNumber 2)]) =
     Some [(''node'', DString ''b''), (''cpu'', DNumber 2)] \<and>
   index [(''node'', DString ''b''), (''cpu'', DNumber 2)] ''node'' = DString ''b'' \<and>
   ListStorages example_env 2 (client_args example_flags) ''b'' = (Inl ''node offline'', 3) \<and>
   listStorages example_env 0 (client_args example_flags) =
     (Exit 1, 3,
      [Call (client_args example_flags) CallGetNodeList,
       Println [Str ''a''], Call (client_args example_flags) (CallListStorages ''a''),
       Println [Str tab, Str ''local''],
       Printf (tab @ tab @ ''%s:%+v'' @ nl) [Str ''type'', Dyn (DString ''dir'')],
       Println [Str ''b''], Call (client_args example_flags) (CallListStorages ''b''),
       Log_Printf (''Failed to fetch storages for node %s: %s'' @ nl)
         [Str ''b'', Str ''node offline'']])"
proof -
  let ?cl = "client_args example_flags"
  have h1: "GetNodeList example_env 0 ?cl =
     (Inr ([] @ DList ([DMap [(''node'', DString ''a''), (''cpu'', DNumber 4)]] @
              DMap [(''node'', DString ''b''), (''cpu'', DNumber 2)] # []) # []), 1)"
    by (simp add: example_env_def)
  have h2: "listStorages_infos example_env 1 ?cl [] = (Return, 1, [])"
    by simp
  have h3: "listStorages_nodes example_env 1 ?cl
       [DMap [(''node'', DString ''a''), (''cpu'', DNumber 4)]] =
     (Return, 2,
      [Println [Str ''a''], Call ?cl (CallListStorages ''a''),
       Println [Str tab, Str ''local''],
       Printf (tab @ tab @ ''%s:%+v'' @ nl) [Str ''type'', Dyn (DString ''dir'')]])"
    by (simp add: example_env_def listStorages_node_def listStorages_storage_def index_def
        and_then_def emit_def)
  have h4: "assert_map (DMap [(''node'', DString ''b''), (''cpu'', DNumber 2)]) =
     Some [(''node'', DString ''b''), (''cpu'', DNumber 2)]"
    by simp
  have h5: "index [(''node'', DString ''b''), (''cpu'', DNumber 2)] ''node'' = DString ''b''"
    by (simp add: index_def)
  have h6: "ListStorages example_env 2 ?cl ''b'' = (Inl ''node offline'', 3)"
    by (simp add: example_env_def)
  from storage_failure_fatal [OF h1 h2 h3 h4 h5 h6] h1 h2 h3 h4 h5 h6
  show ?thesis by simp
qed

subsection \<open>The identity of a record\<close>



subsection \<open>Virtual machines: the guest agent may fail\<close>

lemma fst_and_then:
  "fst (and_then r k) = (if fst r = Return then fst (k (fst (snd r))) else fst r)"
proof (cases r)
  case (fields oc w t)
  then show ?thesis
    by (cases oc) (simp_all add: and_then_def fst_emit)
qed

lemma listVMs_vm_Return:
  assumes "assert_map vm = Some m"
    and "GetVmRefByName env w cl (fst (string_ok (index m ''name''))) = (Inr vmRef, wa)"
    and "GetVmConfig env wa cl vmRef = (Inr vmConfig, wb)"
    and "GetVmAgentNetworkInterfaces env wb cl vmRef = (res, wc)"
  shows "listVMs_vm env w cl vm =
     (Return, wc,
      Println [Str (fst (string_ok (index m ''name'')))] # Println [Str '' Status:'']
        # listVMs_attrs m
      @ [Call cl (CallGetVmRefByName (fst (string_ok (index m ''name'')))),
         Call cl (CallGetVmConfig vmRef), Println [Str '' Config:'']]
      @ listVMs_config vmConfig
      @ [Println [Str '' Agent network interfaces:''],
         Call cl (CallGetVmAgentNetworkInterfaces vmRef)]
      @ listVMs_agent res)"
  using assms by (simp add: listVMs_vm_def emit_simp Let_def)

lemma main_logged_in:
  assumes "Arg args 0 \<noteq> []"
    and "NewClient env w (client_args fl) = (None, wa)"
    and "Login env wa (client_args fl) (usernameWithRealm (username fl) (realm fl))
           (password fl) (otp fl) = (None, wb)"
  shows "main env w prog fl args =
     emit (debug_log fl @
           [Call (client_args fl) CallNewClient,
            Call (client_args fl)
              (CallLogin (usernameWithRealm (username fl) (realm fl)) (password fl) (otp fl))])
       (dispatch env wb (client_args fl) prog args)"
  using assms by (simp add: main_def Let_def emit_emit)

lemma Sprintln_not_available:
  "Sprintln fmt [Str (tab @ ''Not available:''), Str err] = tab @ ''Not available: '' @ err @ nl"
  by (simp add: Sprintln_def)

lemma listVMs_vms_agent_fails:
  assumes "assert_map vm = Some m"
    and "GetVmRefByName env w cl (fst (string_ok (index m ''name''))) = (Inr vmRef, wa)"
    and "GetVmConfig env wa cl vmRef = (Inr vmConfig, wb)"
    and "GetVmAgentNetworkInterfaces env wb cl vmRef = (Inl err, wc)"
  shows "listVMs_vms env w cl (vm # rest) =
      emit (Println [Str (fst (string_ok (index m ''name'')))] # Println [Str '' Status:'']
              # listVMs_attrs m
            @ [Call cl (CallGetVmRefByName (fst (string_ok (index m ''name'')))),
               Call cl (CallGetVmConfig vmRef), Println [Str '' Config:'']]
            @ listVMs_config vmConfig
            @ [Println [Str '' Agent network interfaces:''],
               Call cl (CallGetVmAgentNetworkInterfaces vmRef),
               Println [Str (tab @ ''Not available:''), Str err]])
        (listVMs_vms env wc cl rest)"
  by (simp add: listVMs_vm_Return [OF assms] and_then_Return)

lemma list_not_help:
  assumes "c = ''l'' \<or> c = ''ls'' \<or> c = ''list''"
  shows "c \<noteq> ''h''" and "c \<noteq> ''help''" and "c \<noteq> []"
  using assms by auto

lemma vm_not_other:
  assumes "a = ''v'' \<or> a = ''vm'' \<or> a = ''vms''"
  shows "a \<noteq> ''c''" and "a \<noteq> ''cluster''" and "a \<noteq> ''clusters''"
    and "a \<noteq> ''n''" and "a \<noteq> ''node''" and "a \<noteq> ''nodes''"
    and "a \<noteq> ''s''" and "a \<noteq> ''storage''"
  using assms by auto

lemma dispatch_list_vm:
  assumes "Arg args 0 = ''l'' \<or> Arg args 0 = ''ls'' \<or> Arg args 0 = ''list''"
    and "Arg args 1 = ''v'' \<or> Arg args 1 = ''vm'' \<or> Arg args 1 = ''vms''"
  shows "dispatch env w cl prog args = listVMs env w cl"
  using assms list_not_help [OF assms(1)] vm_not_other [OF assms(2)]
  by (simp add: dispatch_def Let_def)

lemma dispatch_list_cluster:
  assumes "Arg args 0 = ''l'' \<or> Arg args 0 = ''ls'' \<or> Arg args 0 = ''list''"
    and "Arg args 1 = ''c'' \<or> Arg args 1 = ''cluster'' \<or> Arg args 1 = ''clusters''"
  shows "dispatch env w cl prog args = listClusters w cl"
  using assms list_not_help [OF assms(1)] by (simp add: dispatch_def Let_def)

lemma dispatch_list_unknown:
  assumes "Arg args 0 = ''l'' \<or> Arg args 0 = ''ls'' \<or> Arg args 0 = ''list''"
    and "Arg args 1 \<notin> {''c'', ''cluster'', ''clusters'', ''n'', ''node'', ''nodes'',
            ''s'', ''storage'', ''v'', ''vm'', ''vms''}"
  shows "dispatch env w cl prog args = (Exit 0, w, help_command prog (Arg args 0))"
  using assms list_not_help [OF assms(1)] by (simp add: dispatch_def Let_def)

lemma dispatch_help:
  assumes "Arg args 0 = ''h'' \<or> Arg args 0 = ''help''"
  shows "dispatch env w cl prog args =
     (Exit 0, w, if length args = 2 then help_command prog (Arg args 0) else usage prog)"
  using assms by (simp add: dispatch_def Let_def)

lemma listVMs_vms_append:
  "listVMs_vms env w cl (xs @ ys) =
     and_then (listVMs_vms env w cl xs) (\<lambda>w'. listVMs_vms env w' cl ys)"
proof (induction xs arbitrary: w)
  case Nil
  show ?case by (simp add: and_then_Return emit_Nil)
next
  case (Cons x xs)
  show ?case by (simp add: Cons.IH and_then_assoc)
qed

lemma listVMs_infos_append:
  "listVMs_infos env w cl (xs @ ys) =
     and_then (listVMs_infos env w cl xs) (\<lambda>w'. listVMs_infos env w' cl ys)"
proof (induction xs arbitrary: w)
  case Nil
  show ?case by (simp add: and_then_Return emit_Nil)
next
  case (Cons x xs)
  show ?case
  proof (cases "assert_list x")
    case None
    then show ?thesis by (simp add: and_then_stop)
  next
    case (Some vms)
    then show ?thesis by (simp add: Cons.IH and_then_assoc)
  qed
qed

lemma and_then_Return_iff:
  "fst (and_then r k) = Return \<longleftrightarrow> fst r = Return \<and> fst (k (fst (snd r))) = Return"
  by (simp add: fst_and_then)

text \<open>
  The loop over the machines returns when every fetch of a reference and of a
  configuration that it makes succeeds, in the world in which it makes it.
\<close>

lemma listVMs_vms_returns:
  assumes "\<forall>pre vm post wv tv.
      vms = pre @ vm # post \<and> listVMs_vms env w cl pre = (Return, wv, tv) \<longrightarrow>
      (\<exists>m vmRef wa. assert_map vm = Some m \<and>
         GetVmRefByName env wv cl (fst (string_ok (index m ''name''))) = (Inr vmRef, wa) \<and>
         (\<exists>vmConfig wb. GetVmConfig env wa cl vmRef = (Inr vmConfig, wb)))"
  shows "fst (listVMs_vms env w cl vms) = Return"
  using assms
proof (induction vms arbitrary: w)
  case Nil
  show ?case by simp
next
  case (Cons vm vms)
  have "listVMs_vms env w cl [] = (Return, w, [])" by simp
  with Cons.prems [rule_format, of "[]" vm vms w "[]"]
  obtain m vmRef wa vmConfig wb where m: "assert_map vm = Some m"
    and r: "GetVmRefByName env w cl (fst (string_ok (index m ''name''))) = (Inr vmRef, wa)"
    and c: "GetVmConfig env wa cl vmRef = (Inr vmConfig, wb)"
    by auto
  obtain res wc where a: "GetVmAgentNetworkInterfaces env wb cl vmRef = (res, wc)"
    by (cases "GetVmAgentNetworkInterfaces env wb cl vmRef")
  note step = listVMs_vm_Return [OF m r c a]
  have "fst (listVMs_vms env wc cl vms) = Return"
  proof (rule Cons.IH, intro allI impI)
    fix pre v post wv tv
    assume d: "vms = pre @ v # post \<and> listVMs_vms env wc cl pre = (Return, wv, tv)"
    then have "vm # vms = (vm # pre) @ v # post" by simp
    moreover from d obtain tv' where "listVMs_vms env w cl (vm # pre) = (Return, wv, tv')"
      by (simp add: step and_then_Return emit_simp)
    ultimately show "\<exists>m vmRef wa. assert_map v = Some m \<and>
         GetVmRefByName env wv cl (fst (string_ok (index m ''name''))) = (Inr vmRef, wa) \<and>
         (\<exists>vmConfig wb. GetVmConfig env wa cl vmRef = (Inr vmConfig, wb))"
      using Cons.prems by blast
  qed
  then show ?case
    by (simp add: step and_then_Return fst_emit)
qed

lemma listVMs_infos_returns:
  assumes "\<forall>ipre vmInfo ipost wi ti.
      infos = ipre @ vmInfo # ipost \<and> listVMs_infos env w cl ipre = (Return, wi, ti) \<longrightarrow>
      (\<exists>vms. assert_list vmInfo = Some vms \<and>
         (\<forall>pre vm post wv tv.
            vms = pre @ vm # post \<and> listVMs_vms env wi cl pre = (Return, wv, tv) \<longrightarrow>
            (\<exists>m vmRef wa. assert_map vm = Some m \<and>
               GetVmRefByName env wv cl (fst (string_ok (index m ''name''))) = (Inr vmRef, wa) \<and>
               (\<exists>vmConfig wb. GetVmConfig env wa cl vmRef = (Inr vmConfig, wb)))))"
  shows "fst (listVMs_infos env w cl infos) = Return"
  using assms
proof (induction infos arbitrary: w)
  case Nil
  show ?case by simp
next
  case (Cons vmInfo infos)
  have "listVMs_infos env w cl [] = (Return, w, [])" by simp
  with Cons.prems [rule_format, of "[]" vmInfo infos w "[]"]
  obtain vms where l: "assert_list vmInfo = Some vms"
    and h: "\<forall>pre vm post wv tv.
            vms = pre @ vm # post \<and> listVMs_vms env w cl pre = (Return, wv, tv) \<longrightarrow>
            (\<exists>m vmRef wa. assert_map vm = Some m \<and>
               GetVmRefByName env wv cl (fst (string_ok (index m ''name''))) = (Inr vmRef, wa) \<and>
               (\<exists>vmConfig wb. GetVmConfig env wa cl vmRef = (Inr vmConfig, wb)))"
    by auto
  have "fst (listVMs_vms env w cl vms) = Return"
    using h by (rule listVMs_vms_returns)
  then obtain wi ti where v: "listVMs_vms env w cl vms = (Return, wi, ti)"
    by (cases "listVMs_vms env w cl vms") simp
  have "fst (listVMs_infos env wi cl infos) = Return"
  proof (rule Cons.IH, intro allI impI)
    fix ipre info ipost wj tj
    assume d: "infos = ipre @ info # ipost \<and> listVMs_infos env wi cl ipre = (Return, wj, tj)"
    then have "vmInfo # infos = (vmInfo # ipre) @ info # ipost" by simp
    moreover from d obtain tj' where
      "listVMs_infos env w cl (vmInfo # ipre) = (Return, wj, tj')"
      by (simp add: l v and_then_Return emit_simp)
    ultimately show "\<exists>vms. assert_list info = Some vms \<and>
         (\<forall>pre vm post wv tv.
            vms = pre @ vm # post \<and> listVMs_vms env wj cl pre = (Return, wv, tv) \<longrightarrow>
            (\<exists>m vmRef wa. assert_map vm = Some m \<and>
               GetVmRefByName env wv cl (fst (string_ok (index m ''name''))) = (Inr vmRef, wa) \<and>
               (\<exists>vmConfig wb. GetVmConfig env wa cl vmRef = (Inr vmConfig, wb))))"
      using Cons.prems by blast
  qed
  then show ?case
    by (simp add: l v and_then_Return fst_emit)
qed

lemma main_list_vm:
  assumes "Arg args 0 = ''l'' \<or> Arg args 0 = ''ls'' \<or> Arg args 0 = ''list''"
    and "Arg args 1 = ''v'' \<or> Arg args 1 = ''vm'' \<or> Arg args 1 = ''vms''"
    and "NewClient env u (client_args fl) = (None, ua)"
    and "Login env ua (client_args fl) (usernameWithRealm (username fl) (realm fl))
      (password fl) (otp fl) = (None, ub)"
    and "GetVmList env ub (client_args fl) = (Inr infos, uc)"
  shows "main env u prog fl args =
     emit (debug_log fl @
           [Call (client_args fl) CallNewClient,
            Call (client_args fl)
              (CallLogin (usernameWithRealm (username fl) (realm fl)) (password fl) (otp fl)),
            Call (client_args fl) CallGetVmList])
       (listVMs_infos env uc (client_args fl) infos)"
proof -
  have cmd: "Arg args 0 \<noteq> []"
    using assms(1) by (rule list_not_help)
  show ?thesis
    by (simp add: main_logged_in [OF cmd assms(3,4)] dispatch_list_vm [OF assms(1,2)]
        listVMs_def assms(5) emit_emit)
qed

lemma listVMs_infos_agent_fails:
  assumes "listVMs_infos env w cl ipre = (Return, wi, ti)"
    and "listVMs_vms env wi cl pre = (Return, wv, tv)"
    and "assert_map vm = Some m"
    and "GetVmRefByName env wv cl (fst (string_ok (index m ''name''))) = (Inr vmRef, wa)"
    and "GetVmConfig env wa cl vmRef = (Inr vmConfig, wb)"
    and "GetVmAgentNetworkInterfaces env wb cl vmRef = (Inl err, wc)"
  shows "listVMs_infos env w cl (ipre @ DList (pre @ vm # post) # ipost) =
      emit (ti @ tv @
            Println [Str (fst (string_ok (index m ''name'')))] # Println [Str '' Status:'']
              # listVMs_attrs m
            @ [Call cl (CallGetVmRefByName (fst (string_ok (index m ''name'')))),
               Call cl (CallGetVmConfig vmRef), Println [Str '' Config:'']]
            @ listVMs_config vmConfig
            @ [Println [Str '' Agent network interfaces:''],
               Call cl (CallGetVmAgentNetworkInterfaces vmRef),
               Println [Str (tab @ ''Not available:''), Str err]])
        (and_then (listVMs_vms env wc cl post) (\<lambda>w'. listVMs_infos env w' cl ipost))"
proof -
  let ?t = "Println [Str (fst (string_ok (index m ''name'')))] # Println [Str '' Status:'']
              # listVMs_attrs m
            @ [Call cl (CallGetVmRefByName (fst (string_ok (index m ''name'')))),
               Call cl (CallGetVmConfig vmRef), Println [Str '' Config:'']]
            @ listVMs_config vmConfig
            @ [Println [Str '' Agent network interfaces:''],
               Call cl (CallGetVmAgentNetworkInterfaces vmRef),
               Println [Str (tab @ ''Not available:''), Str err]]"
  have "listVMs_vms env wv cl (vm # post) = emit ?t (listVMs_vms env wc cl post)"
    using assms(3-6) by (rule listVMs_vms_agent_fails)
  then have "listVMs_vms env wi cl (pre @ vm # post) =
      emit (tv @ ?t) (listVMs_vms env wc cl post)"
    by (simp only: listVMs_vms_append assms(2) and_then_Return emit_emit)
  then have "listVMs_infos env wi cl (DList (pre @ vm # post) # ipost) =
      emit (tv @ ?t)
        (and_then (listVMs_vms env wc cl post) (\<lambda>w'. listVMs_infos env w' cl ipost))"
    by (simp only: listVMs_infos.simps assert_list.simps option.case and_then_emit)
  then show ?thesis
    by (simp only: listVMs_infos_append assms(1) and_then_Return emit_emit append_assoc)
qed

text \<open>
  C4. First part: for a machine whose reference and configuration are fetched, a failure
  of the fetch of the agent's network interfaces with the message \<open>err\<close> ends nothing:
  the line \<open>tab Not available: err\<close> is printed where the interfaces would be, and the
  loop goes on with the next machine, in the world that the failed call left.
  Second part, for a run of \<open>list vm\<close> in which the client is created and the login
  and the listing succeed: the run is the listing of the machines after the three
  calls; when the run reaches a machine as in the first part, the trace of \<open>main\<close> holds
  the line at that place and the run goes on with the machines and the values after
  it; and when, of the calls that the run makes, in the worlds in which it makes them,
  no fetch of a reference or of a configuration fails, and the listing is well formed
  as far as the run reads it, then \<open>main\<close> returns, with exit status 0, whatever the
  fetches of the agent's interfaces answer.
\<close>

theorem agent_failure_tolerated:
  "(assert_map vm = Some m \<and>
    GetVmRefByName env w cl (fst (string_ok (index m ''name''))) = (Inr vmRef, wa) \<and>
    GetVmConfig env wa cl vmRef = (Inr vmConfig, wb) \<and>
    GetVmAgentNetworkInterfaces env wb cl vmRef = (Inl err, wc) \<longrightarrow>
    listVMs_vms env w cl (vm # rest) =
      emit (Println [Str (fst (string_ok (index m ''name'')))] # Println [Str '' Status:'']
              # listVMs_attrs m
            @ [Call cl (CallGetVmRefByName (fst (string_ok (index m ''name'')))),
               Call cl (CallGetVmConfig vmRef), Println [Str '' Config:'']]
            @ listVMs_config vmConfig
            @ [Println [Str '' Agent network interfaces:''],
               Call cl (CallGetVmAgentNetworkInterfaces vmRef),
               Println [Str (tab @ ''Not available:''), Str err]])
        (listVMs_vms env wc cl rest) \<and>
    Sprintln fmt [Str (tab @ ''Not available:''), Str err] =
      tab @ ''Not available: '' @ err @ nl) \<and>
   ((Arg args 0 = ''l'' \<or> Arg args 0 = ''ls'' \<or> Arg args 0 = ''list'') \<and>
    (Arg args 1 = ''v'' \<or> Arg args 1 = ''vm'' \<or> Arg args 1 = ''vms'') \<and>
    NewClient env u (client_args fl) = (None, ua) \<and>
    Login env ua (client_args fl) (usernameWithRealm (username fl) (realm fl))
      (password fl) (otp fl) = (None, ub) \<and>
    GetVmList env ub (client_args fl) = (Inr infos, uc) \<longrightarrow>
    main env u prog fl args =
      emit (debug_log fl @
            [Call (client_args fl) CallNewClient,
             Call (client_args fl)
               (CallLogin (usernameWithRealm (username fl) (realm fl)) (password fl) (otp fl)),
             Call (client_args fl) CallGetVmList])
        (listVMs_infos env uc (client_args fl) infos) \<and>
    (infos = ipre @ DList (pre @ vm' # post) # ipost \<and>
     listVMs_infos env uc (client_args fl) ipre = (Return, ui, ti) \<and>
     listVMs_vms env ui (client_args fl) pre = (Return, uv, tv) \<and>
     assert_map vm' = Some m' \<and>
     GetVmRefByName env uv (client_args fl) (fst (string_ok (index m' ''name'')))
       = (Inr vmRef', va) \<and>
     GetVmConfig env va (client_args fl) vmRef' = (Inr vmConfig', vb) \<and>
     GetVmAgentNetworkInterfaces env vb (client_args fl) vmRef' = (Inl err', vc) \<longrightarrow>
     main env u prog fl args =
       emit (debug_log fl @
             [Call (client_args fl) CallNewClient,
              Call (client_args fl)
                (CallLogin (usernameWithRealm (username fl) (realm fl)) (password fl) (otp fl)),
              Call (client_args fl) CallGetVmList] @
             ti @ tv @
             Println [Str (fst (string_ok (index m' ''name'')))] # Println [Str '' Status:'']
               # listVMs_attrs m'
             @ [Call (client_args fl)
                  (CallGetVmRefByName (fst (string_ok (index m' ''name'')))),
                Call (client_args fl) (CallGetVmConfig vmRef'), Println [Str '' Config:'']]
             @ listVMs_config vmConfig'
             @ [Println [Str '' Agent network interfaces:''],
                Call (client_args fl) (CallGetVmAgentNetworkInterfaces vmRef'),
                Println [Str (tab @ ''Not available:''), Str err']])
         (and_then (listVMs_vms env vc (client_args fl) post)
            (\<lambda>w'. listVMs_infos env w' (client_args fl) ipost))) \<and>
    ((\<forall>ipre vmInfo ipost wi ti.
        infos = ipre @ vmInfo # ipost \<and>
        listVMs_infos env uc (client_args fl) ipre = (Return, wi, ti) \<longrightarrow>
        (\<exists>vms. assert_list vmInfo = Some vms \<and>
           (\<forall>pre vm post wv tv.
              vms = pre @ vm # post \<and>
              listVMs_vms env wi (client_args fl) pre = (Return, wv, tv) \<longrightarrow>
              (\<exists>m vmRef wa. assert_map vm = Some m \<and>
                 GetVmRefByName env wv (client_args fl) (fst (string_ok (index m ''name'')))
                   = (Inr vmRef, wa) \<and>
                 (\<exists>vmConfig wb.
                    GetVmConfig env wa (client_args fl) vmRef = (Inr vmConfig, wb)))))) \<longrightarrow>
     fst (main env u prog fl args) = Return \<and>
     exit_code (fst (main env u prog fl args)) = 0))"
proof (intro conjI impI)
  assume "assert_map vm = Some m \<and>
    GetVmRefByName env w cl (fst (string_ok (index m ''name''))) = (Inr vmRef, wa) \<and>
    GetVmConfig env wa cl vmRef = (Inr vmConfig, wb) \<and>
    GetVmAgentNetworkInterfaces env wb cl vmRef = (Inl err, wc)"
  then show "listVMs_vms env w cl (vm # rest) =
      emit (Println [Str (fst (string_ok (index m ''name'')))] # Println [Str '' Status:'']
              # listVMs_attrs m
            @ [Call cl (CallGetVmRefByName (fst (string_ok (index m ''name'')))),
               Call cl (CallGetVmConfig vmRef), Println [Str '' Config:'']]
            @ listVMs_config vmConfig
            @ [Println [Str '' Agent network interfaces:''],
               Call cl (CallGetVmAgentNetworkInterfaces vmRef),
               Println [Str (tab @ ''Not available:''), Str err]])
        (listVMs_vms env wc cl rest)"
    by (elim conjE) (rule listVMs_vms_agent_fails)
  show "Sprintln fmt [Str (tab @ ''Not available:''), Str err] =
      tab @ ''Not available: '' @ err @ nl"
    by (rule Sprintln_not_available)
next
  assume "(Arg args 0 = ''l'' \<or> Arg args 0 = ''ls'' \<or> Arg args 0 = ''list'') \<and>
    (Arg args 1 = ''v'' \<or> Arg args 1 = ''vm'' \<or> Arg args 1 = ''vms'') \<and>
    NewClient env u (client_args fl) = (None, ua) \<and>
    Login env ua (client_args fl) (usernameWithRealm (username fl) (realm fl))
      (password fl) (otp fl) = (None, ub) \<and>
    GetVmList env ub (client_args fl) = (Inr infos, uc)"
  then have run: "main env u prog fl args =
      emit (debug_log fl @
            [Call (client_args fl) CallNewClient,
             Call (client_args fl)
               (CallLogin (usernameWithRealm (username fl) (realm fl)) (password fl) (otp fl)),
             Call (client_args fl) CallGetVmList])
        (listVMs_infos env uc (client_args fl) infos)"
    by (elim conjE) (rule main_list_vm)
  show "main env u prog fl args =
      emit (debug_log fl @
            [Call (client_args fl) CallNewClient,
             Call (client_args fl)
               (CallLogin (usernameWithRealm (username fl) (realm fl)) (password fl) (otp fl)),
             Call (client_args fl) CallGetVmList])
        (listVMs_infos env uc (client_args fl) infos)"
    by (rule run)
  {
    assume d: "infos = ipre @ DList (pre @ vm' # post) # ipost \<and>
     listVMs_infos env uc (client_args fl) ipre = (Return, ui, ti) \<and>
     listVMs_vms env ui (client_args fl) pre = (Return, uv, tv) \<and>
     assert_map vm' = Some m' \<and>
     GetVmRefByName env uv (client_args fl) (fst (string_ok (index m' ''name'')))
       = (Inr vmRef', va) \<and>
     GetVmConfig env va (client_args fl) vmRef' = (Inr vmConfig', vb) \<and>
     GetVmAgentNetworkInterfaces env vb (client_args fl) vmRef' = (Inl err', vc)"
    then have i: "infos = ipre @ DList (pre @ vm' # post) # ipost" by (rule conjunct1)
    from d [THEN conjunct2] have
      "listVMs_infos env uc (client_args fl) (ipre @ DList (pre @ vm' # post) # ipost) =
       emit (ti @ tv @
             Println [Str (fst (string_ok (index m' ''name'')))] # Println [Str '' Status:'']
               # listVMs_attrs m'
             @ [Call (client_args fl)
                  (CallGetVmRefByName (fst (string_ok (index m' ''name'')))),
                Call (client_args fl) (CallGetVmConfig vmRef'), Println [Str '' Config:'']]
             @ listVMs_config vmConfig'
             @ [Println [Str '' Agent network interfaces:''],
                Call (client_args fl) (CallGetVmAgentNetworkInterfaces vmRef'),
                Println [Str (tab @ ''Not available:''), Str err']])
         (and_then (listVMs_vms env vc (client_args fl) post)
            (\<lambda>w'. listVMs_infos env w' (client_args fl) ipost))"
      by (elim conjE) (rule listVMs_infos_agent_fails)
    then show "main env u prog fl args =
       emit (debug_log fl @
             [Call (client_args fl) CallNewClient,
              Call (client_args fl)
                (CallLogin (usernameWithRealm (username fl) (realm fl)) (password fl) (otp fl)),
              Call (client_args fl) CallGetVmList] @
             ti @ tv @
             Println [Str (fst (string_ok (index m' ''name'')))] # Println [Str '' Status:'']
               # listVMs_attrs m'
             @ [Call (client_args fl)
                  (CallGetVmRefByName (fst (string_ok (index m' ''name'')))),
                Call (client_args fl) (CallGetVmConfig vmRef'), Println [Str '' Config:'']]
             @ listVMs_config vmConfig'
             @ [Println [Str '' Agent network interfaces:''],
                Call (client_args fl) (CallGetVmAgentNetworkInterfaces vmRef'),
                Println [Str (tab @ ''Not available:''), Str err']])
         (and_then (listVMs_vms env vc (client_args fl) post)
            (\<lambda>w'. listVMs_infos env w' (client_args fl) ipost))"
      by (simp only: run i [symmetric] emit_emit append_assoc)
  }
  {
    assume "\<forall>ipre vmInfo ipost wi ti.
        infos = ipre @ vmInfo # ipost \<and>
        listVMs_infos env uc (client_args fl) ipre = (Return, wi, ti) \<longrightarrow>
        (\<exists>vms. assert_list vmInfo = Some vms \<and>
           (\<forall>pre vm post wv tv.
              vms = pre @ vm # post \<and>
              listVMs_vms env wi (client_args fl) pre = (Return, wv, tv) \<longrightarrow>
              (\<exists>m vmRef wa. assert_map vm = Some m \<and>
                 GetVmRefByName env wv (client_args fl) (fst (string_ok (index m ''name'')))
                   = (Inr vmRef, wa) \<and>
                 (\<exists>vmConfig wb.
                    GetVmConfig env wa (client_args fl) vmRef = (Inr vmConfig, wb)))))"
    then have "fst (listVMs_infos env uc (client_args fl) infos) = Return"
      by (rule listVMs_infos_returns)
    then show r: "fst (main env u prog fl args) = Return"
      by (simp add: run fst_emit)
    show "exit_code (fst (main env u prog fl args)) = 0"
      by (simp add: r)
  }
qed

theorem agent_failure_tolerated_witness:
  "assert_map (DMap [(''name'', DString ''vm1'')]) = Some [(''name'', DString ''vm1'')] \<and>
   GetVmRefByName example_env 3 (client_args example_flags) ''vm1'' = (Inr ''vm1'', 4) \<and>
   GetVmRefByName example_env 3 (client_args example_flags) ''vm2'' = (Inl ''vm not found'', 4) \<and>
   GetVmConfig example_env 4 (client_args example_flags) ''vm1'' =
     (Inr [(''cores'', DNumber 2)], 5) \<and>
   GetVmAgentNetworkInterfaces example_env 5 (client_args example_flags) ''vm1'' =
     (Inl ''QEMU guest agent is not running'', 6) \<and>
   listVMs_vms example_env 3 (client_args example_flags) [DMap [(''name'', DString ''vm1'')]] =
     (Return, 6,
      [Println [Str ''vm1''], Println [Str '' Status:''],
       Call (client_args example_flags) (CallGetVmRefByName ''vm1''),
       Call (client_args example_flags) (CallGetVmConfig ''vm1''),
       Println [Str '' Config:''],
       Printf (tab @ ''%s: %+v'' @ nl) [Str ''cores'', Dyn (DNumber 2)],
       Println [Str '' Agent network interfaces:''],
       Call (client_args example_flags) (CallGetVmAgentNetworkInterfaces ''vm1''),
       Println [Str (tab @ ''Not available:''), Str ''QEMU guest agent is not running'']]) \<and>
   NewClient example_env 0 (client_args example_flags) = (None, 1) \<and>
   Login example_env 1 (client_args example_flags) ''root@pam'' ''secret'' [] = (None, 2) \<and>
   GetVmList example_env 2 (client_args example_flags) =
     (Inr [DList [DMap [(''name'', DString ''vm1'')]]], 3) \<and>
   main example_env 0 ''cli'' example_flags [''list'', ''vm''] =
     (Return, 6,
      [Call (client_args example_flags) CallNewClient,
       Call (client_args example_flags) (CallLogin ''root@pam'' ''secret'' []),
       Call (client_args example_flags) CallGetVmList,
       Println [Str ''vm1''], Println [Str '' Status:''],
       Call (client_args example_flags) (CallGetVmRefByName ''vm1''),
       Call (client_args example_flags) (CallGetVmConfig ''vm1''),
       Println [Str '' Config:''],
       Printf (tab @ ''%s: %+v'' @ nl) [Str ''cores'', Dyn (DNumber 2)],
       Println [Str '' Agent network interfaces:''],
       Call (client_args example_flags) (CallGetVmAgentNetworkInterfaces ''vm1''),
       Println [Str (tab @ ''Not available:''), Str ''QEMU guest agent is not running'']]) \<and>
   fst (main example_env 0 ''cli'' example_flags [''list'', ''vm'']) = Return \<and>
   exit_code (fst (main example_env 0 ''cli'' example_flags [''list'', ''vm''])) = 0"
proof -
  let ?cl = "client_args example_flags"
  let ?m = "[(''name'', DString ''vm1'')]"
  note T = agent_failure_tolerated [where vm = "DMap ?m"
      and m = ?m and env = example_env and w = 3
      and cl = ?cl and vmRef = "''vm1''" and wa = 4
      and vmConfig = "[(''cores'', DNumber 2)]" and wb = 5
      and err = "''QEMU guest agent is not running''" and wc = 6 and rest = "[]"
      and fmt = "\<lambda>x. []" and args = "[''list'', ''vm'']" and u = 0 and fl = example_flags
      and ua = 1 and ub = 2 and infos = "[DList [DMap ?m]]"
      and uc = 3 and prog = "''cli''" and ipre = "[]" and pre = "[]" and vm' = "DMap ?m"
      and post = "[]" and ipost = "[]" and ui = 3 and ti = "[]" and uv = 3 and tv = "[]"
      and m' = ?m and vmRef' = "''vm1''" and va = 4 and vmConfig' = "[(''cores'', DNumber 2)]"
      and vb = 5 and err' = "''QEMU guest agent is not running''" and vc = 6]
  have calls:
    "GetVmRefByName example_env 3 ?cl ''vm1'' = (Inr ''vm1'', 4)"
    "GetVmRefByName example_env 3 ?cl ''vm2'' = (Inl ''vm not found'', 4)"
    "GetVmConfig example_env 4 ?cl ''vm1'' = (Inr [(''cores'', DNumber 2)], 5)"
    "GetVmAgentNetworkInterfaces example_env 5 ?cl ''vm1'' =
       (Inl ''QEMU guest agent is not running'', 6)"
    "NewClient example_env 0 ?cl = (None, 1)"
    "Login example_env 1 ?cl ''root@pam'' ''secret'' [] = (None, 2)"
    "GetVmList example_env 2 ?cl = (Inr [DList [DMap ?m]], 3)"
    by (simp_all add: example_env_def)
  have name: "fst (string_ok (index ?m ''name'')) = ''vm1''"
    by (simp add: index_def)
  have loop:
    "listVMs_vms example_env 3 ?cl [DMap ?m] =
     (Return, 6,
      [Println [Str ''vm1''], Println [Str '' Status:''],
       Call ?cl (CallGetVmRefByName ''vm1''),
       Call ?cl (CallGetVmConfig ''vm1''),
       Println [Str '' Config:''],
       Printf (tab @ ''%s: %+v'' @ nl) [Str ''cores'', Dyn (DNumber 2)],
       Println [Str '' Agent network interfaces:''],
       Call ?cl (CallGetVmAgentNetworkInterfaces ''vm1''),
       Println [Str (tab @ ''Not available:''), Str ''QEMU guest agent is not running'']])"
  proof -
    have "assert_map (DMap ?m) = Some ?m \<and>
      GetVmRefByName example_env 3 ?cl (fst (string_ok (index ?m ''name''))) = (Inr ''vm1'', 4) \<and>
      GetVmConfig example_env 4 ?cl ''vm1'' = (Inr [(''cores'', DNumber 2)], 5) \<and>
      GetVmAgentNetworkInterfaces example_env 5 ?cl ''vm1'' =
        (Inl ''QEMU guest agent is not running'', 6)"
      by (simp add: calls name)
    note step = T [THEN conjunct1, THEN mp, OF this, THEN conjunct1]
    show ?thesis
      by (subst step) (simp add: emit_def name)
  qed
  have login: "(Arg [''list'', ''vm''] 0 = ''l'' \<or> Arg [''list'', ''vm''] 0 = ''ls'' \<or>
      Arg [''list'', ''vm''] 0 = ''list'') \<and>
    (Arg [''list'', ''vm''] 1 = ''v'' \<or> Arg [''list'', ''vm''] 1 = ''vm'' \<or>
      Arg [''list'', ''vm''] 1 = ''vms'') \<and>
    NewClient example_env 0 ?cl = (None, 1) \<and>
    Login example_env 1 ?cl (usernameWithRealm (username example_flags) (realm example_flags))
      (password example_flags) (otp example_flags) = (None, 2) \<and>
    GetVmList example_env 2 ?cl = (Inr [DList [DMap ?m]], 3)"
    by (simp add: calls Arg_def)
      (simp add: example_env_def example_flags_def default_flags_def)
  note R = T [THEN conjunct2, THEN mp, OF login]
  have reached: "[DList [DMap ?m]] = [] @ DList ([] @ DMap ?m # []) # [] \<and>
     listVMs_infos example_env 3 ?cl [] = (Return, 3, []) \<and>
     listVMs_vms example_env 3 ?cl [] = (Return, 3, []) \<and>
     assert_map (DMap ?m) = Some ?m \<and>
     GetVmRefByName example_env 3 ?cl (fst (string_ok (index ?m ''name''))) = (Inr ''vm1'', 4) \<and>
     GetVmConfig example_env 4 ?cl ''vm1'' = (Inr [(''cores'', DNumber 2)], 5) \<and>
     GetVmAgentNetworkInterfaces example_env 5 ?cl ''vm1'' =
       (Inl ''QEMU guest agent is not running'', 6)"
    by (simp add: calls name)
  have run: "main example_env 0 ''cli'' example_flags [''list'', ''vm''] =
     (Return, 6,
      [Call ?cl CallNewClient,
       Call ?cl (CallLogin ''root@pam'' ''secret'' []),
       Call ?cl CallGetVmList,
       Println [Str ''vm1''], Println [Str '' Status:''],
       Call ?cl (CallGetVmRefByName ''vm1''),
       Call ?cl (CallGetVmConfig ''vm1''),
       Println [Str '' Config:''],
       Printf (tab @ ''%s: %+v'' @ nl) [Str ''cores'', Dyn (DNumber 2)],
       Println [Str '' Agent network interfaces:''],
       Call ?cl (CallGetVmAgentNetworkInterfaces ''vm1''),
       Println [Str (tab @ ''Not available:''), Str ''QEMU guest agent is not running'']])"
    by (subst R [THEN conjunct2, THEN conjunct1, THEN mp, OF reached])
      (simp add: emit_def and_then_def name debug_log_def example_flags_def default_flags_def
        usernameWithRealm_def)
  have "fst (main example_env 0 ''cli'' example_flags [''list'', ''vm'']) = Return \<and>
    exit_code (fst (main example_env 0 ''cli'' example_flags [''list'', ''vm''])) = 0"
  proof (rule R [THEN conjunct2, THEN conjunct2, THEN mp], intro allI impI)
    fix ipre vmInfo ipost wi ti
    assume a: "[DList [DMap ?m]] = ipre @ vmInfo # ipost \<and>
        listVMs_infos example_env 3 ?cl ipre = (Return, wi, ti)"
    then have i: "ipre = []" "vmInfo = DList [DMap ?m]"
      by (simp_all add: Cons_eq_append_conv)
    with a have wi: "wi = 3" by simp
    have "\<forall>pre vm post wv tv.
              [DMap ?m] = pre @ vm # post \<and>
              listVMs_vms example_env wi ?cl pre = (Return, wv, tv) \<longrightarrow>
              (\<exists>m vmRef wa. assert_map vm = Some m \<and>
                 GetVmRefByName example_env wv ?cl (fst (string_ok (index m ''name'')))
                   = (Inr vmRef, wa) \<and>
                 (\<exists>vmConfig wb. GetVmConfig example_env wa ?cl vmRef = (Inr vmConfig, wb)))"
    proof (intro allI impI)
      fix pre vm post wv tv
      assume b: "[DMap ?m] = pre @ vm # post \<and>
              listVMs_vms example_env wi ?cl pre = (Return, wv, tv)"
      then have p: "pre = []" "vm = DMap ?m"
        by (simp_all add: Cons_eq_append_conv)
      with b wi have "wv = 3" by simp
      with p show "\<exists>m vmRef wa. assert_map vm = Some m \<and>
                 GetVmRefByName example_env wv ?cl (fst (string_ok (index m ''name'')))
                   = (Inr vmRef, wa) \<and>
                 (\<exists>vmConfig wb. GetVmConfig example_env wa ?cl vmRef = (Inr vmConfig, wb))"
        by (simp add: name calls)
    qed
    with i show "\<exists>vms. assert_list vmInfo = Some vms \<and>
           (\<forall>pre vm post wv tv.
              vms = pre @ vm # post \<and>
              listVMs_vms example_env wi ?cl pre = (Return, wv, tv) \<longrightarrow>
              (\<exists>m vmRef wa. assert_map vm = Some m \<and>
                 GetVmRefByName example_env wv ?cl (fst (string_ok (index m ''name'')))
                   = (Inr vmRef, wa) \<and>
                 (\<exists>vmConfig wb. GetVmConfig example_env wa ?cl vmRef = (Inr vmConfig, wb))))"
      by simp
  qed
  with loop run calls show ?thesis by simp
qed

subsection \<open>Clusters\<close>

text \<open>
  C5, as stated, fails: \<open>main\<close> creates the client and logs in before it looks at the
  command, so a run of \<open>list cluster\<close> does call the server; and when the login fails
  the run ends with the message of the login, not with that of the clusters.
\<close>

theorem cluster_network_call_counterexample:
  "Call (client_args example_flags) (CallLogin ''root@pam'' ''secret'' [])
     \<in> set (trace (main example_env 0 ''cli'' example_flags [''list'', ''cluster''])) \<and>
   main example_env 0 ''cli'' default_flags [''list'', ''cluster''] =
     (Exit 1, 2,
      [Call (client_args default_flags) CallNewClient,
       Call (client_args default_flags) (CallLogin ''root@pam'' ''bad-password'' []),
       Log_Println [Str ''Failed to login'', Str ''authentication failure'']])"
  by (simp add: main_def dispatch_def listClusters_def example_env_def example_flags_def
      default_flags_def Arg_def usernameWithRealm_def debug_log_def emit_def trace_def Let_def)

text \<open>
  C5, amended: when the category of clusters is asked for and the creation of the
  client and the login succeed, the run ends with exit status 1 and the message that
  cluster operations are not yet supported, and the creation of the client and the
  login are the only calls of the run: \<open>listClusters\<close> calls nothing.
\<close>

theorem cluster_not_supported:
  assumes "Arg args 0 = ''l'' \<or> Arg args 0 = ''ls'' \<or> Arg args 0 = ''list''"
    and "Arg args 1 = ''c'' \<or> Arg args 1 = ''cluster'' \<or> Arg args 1 = ''clusters''"
    and "NewClient env w (client_args fl) = (None, wa)"
    and "Login env wa (client_args fl) (usernameWithRealm (username fl) (realm fl))
           (password fl) (otp fl) = (None, wb)"
  shows "main env w prog fl args =
     (Exit 1, wb,
      debug_log fl @
      [Call (client_args fl) CallNewClient,
       Call (client_args fl)
         (CallLogin (usernameWithRealm (username fl) (realm fl)) (password fl) (otp fl)),
       Log_Println [Str ''Cluster operations are not yet supported :('']])"
proof -
  have cmd: "Arg args 0 \<noteq> []"
    using assms(1) by (rule list_not_help)
  show ?thesis
    by (simp add: main_logged_in [OF cmd assms(3,4)] dispatch_list_cluster [OF assms(1,2)]
        listClusters_def emit_simp)
qed

theorem cluster_not_supported_witness:
  "main example_env 0 ''cli'' example_flags [''list'', ''cluster''] =
     (Exit 1, 2,
      [Call (client_args example_flags) CallNewClient,
       Call (client_args example_flags) (CallLogin ''root@pam'' ''secret'' []),
       Log_Println [Str ''Cluster operations are not yet supported :('']])"
proof -
  have a: "Arg [''list'', ''cluster''] 0 = ''l'' \<or> Arg [''list'', ''cluster''] 0 = ''ls'' \<or>
      Arg [''list'', ''cluster''] 0 = ''list''"
    by (simp add: Arg_def)
  have b: "Arg [''list'', ''cluster''] 1 = ''c'' \<or> Arg [''list'', ''cluster''] 1 = ''cluster'' \<or>
      Arg [''list'', ''cluster''] 1 = ''clusters''"
    by (simp add: Arg_def)
  have c: "NewClient example_env 0 (client_args example_flags) = (None, 1)"
    by (simp add: example_env_def)
  have d: "Login example_env 1 (client_args example_flags)
      (usernameWithRealm (username example_flags) (realm example_flags))
      (password example_flags) (otp example_flags) = (None, 2)"
    by (simp add: example_env_def example_flags_def default_flags_def)
  show ?thesis
    using cluster_not_supported [OF a b c d, of "''cli''"]
    by (simp add: example_flags_def default_flags_def usernameWithRealm_def debug_log_def)
qed

subsection \<open>Exit codes\<close>

lemma Parse_plain:
  assumes "argv = [] \<or> length (hd argv) < 2 \<or> hd (hd argv) \<noteq> CHR ''-''"
  shows "Parse fl argv = Parsed fl argv"
  using assms by (cases argv) auto

lemma exit_codes_process:
  "(Parse default_flags argv = Parsed fl args \<longrightarrow>
      process env w prog argv = main env w prog fl args \<and>
      (Arg args 0 = [] \<longrightarrow>
         process env w prog argv = (Exit 1, w, usage prog) \<and>
         exit_code (fst (process env w prog argv)) = 1)) \<and>
   (Parse default_flags argv = Bad_flags \<longrightarrow>
      process env w prog argv = (Exit 2, w, []) \<and>
      exit_code (fst (process env w prog argv)) = 2) \<and>
   (Parse default_flags argv = Help_requested \<longrightarrow>
      process env w prog argv = (Exit 0, w, [])) \<and>
   (argv = [] \<or> length (hd argv) < 2 \<or> hd (hd argv) \<noteq> CHR ''-'' \<longrightarrow>
      Parse default_flags argv = Parsed default_flags argv \<and>
      process env w prog argv = main env w prog default_flags argv) \<and>
   process env w prog [] = (Exit 1, w, usage prog)"
proof (intro conjI impI)
  assume p: "Parse default_flags argv = Parsed fl args"
  show m: "process env w prog argv = main env w prog fl args"
    by (simp add: process_def p)
  assume "Arg args 0 = []"
  then show e: "process env w prog argv = (Exit 1, w, usage prog)"
    by (simp add: m main_def)
  show "exit_code (fst (process env w prog argv)) = 1"
    by (simp add: e)
next
  assume p: "Parse default_flags argv = Bad_flags"
  show e: "process env w prog argv = (Exit 2, w, [])"
    by (simp add: process_def p)
  show "exit_code (fst (process env w prog argv)) = 2"
    by (simp add: e)
next
  assume p: "Parse default_flags argv = Help_requested"
  show "process env w prog argv = (Exit 0, w, [])"
    by (simp add: process_def p)
next
  assume "argv = [] \<or> length (hd argv) < 2 \<or> hd (hd argv) \<noteq> CHR ''-''"
  then show p: "Parse default_flags argv = Parsed default_flags argv"
    by (rule Parse_plain)
  show "process env w prog argv = main env w prog default_flags argv"
    by (simp add: process_def p)
next
  show "process env w prog [] = (Exit 1, w, usage prog)"
    by (simp add: process_def main_def Arg_def)
qed

lemma exit_codes_main:
  "(Arg args 0 = [] \<longrightarrow>
      main env w prog fl args = (Exit 1, w, usage prog) \<and>
      exit_code (fst (main env w prog fl args)) = 1) \<and>
   (NewClient env w (client_args fl) = (None, wa) \<and>
    Login env wa (client_args fl) (usernameWithRealm (username fl) (realm fl))
      (password fl) (otp fl) = (None, wb) \<longrightarrow>
      ((Arg args 0 = ''h'' \<or> Arg args 0 = ''help'') \<longrightarrow>
         main env w prog fl args =
           (Exit 0, wb,
            debug_log fl @
            [Call (client_args fl) CallNewClient,
             Call (client_args fl)
               (CallLogin (usernameWithRealm (username fl) (realm fl)) (password fl) (otp fl))] @
            (if length args = 2 then help_command prog (Arg args 0) else usage prog)) \<and>
         exit_code (fst (main env w prog fl args)) = 0) \<and>
      ((Arg args 0 = ''l'' \<or> Arg args 0 = ''ls'' \<or> Arg args 0 = ''list'') \<and>
       Arg args 1 \<notin> {''c'', ''cluster'', ''clusters'', ''n'', ''node'', ''nodes'',
            ''s'', ''storage'', ''v'', ''vm'', ''vms''} \<longrightarrow>
         main env w prog fl args =
           (Exit 0, wb,
            debug_log fl @
            [Call (client_args fl) CallNewClient,
             Call (client_args fl)
               (CallLogin (usernameWithRealm (username fl) (realm fl)) (password fl) (otp fl))] @
            help_command prog (Arg args 0)) \<and>
         exit_code (fst (main env w prog fl args)) = 0))"
proof (intro conjI impI)
  assume "Arg args 0 = []"
  then show m: "main env w prog fl args = (Exit 1, w, usage prog)"
    by (simp add: main_def)
  show "exit_code (fst (main env w prog fl args)) = 1"
    by (simp add: m)
next
  assume ok: "NewClient env w (client_args fl) = (None, wa) \<and>
    Login env wa (client_args fl) (usernameWithRealm (username fl) (realm fl))
      (password fl) (otp fl) = (None, wb)"
  assume h: "Arg args 0 = ''h'' \<or> Arg args 0 = ''help''"
  then have cmd: "Arg args 0 \<noteq> []" by auto
  from ok show m: "main env w prog fl args =
           (Exit 0, wb,
            debug_log fl @
            [Call (client_args fl) CallNewClient,
             Call (client_args fl)
               (CallLogin (usernameWithRealm (username fl) (realm fl)) (password fl) (otp fl))] @
            (if length args = 2 then help_command prog (Arg args 0) else usage prog))"
    by (simp add: main_logged_in [OF cmd] dispatch_help [OF h] emit_simp)
  show "exit_code (fst (main env w prog fl args)) = 0"
    by (simp add: m)
next
  assume ok: "NewClient env w (client_args fl) = (None, wa) \<and>
    Login env wa (client_args fl) (usernameWithRealm (username fl) (realm fl))
      (password fl) (otp fl) = (None, wb)"
  assume l: "(Arg args 0 = ''l'' \<or> Arg args 0 = ''ls'' \<or> Arg args 0 = ''list'') \<and>
       Arg args 1 \<notin> {''c'', ''cluster'', ''clusters'', ''n'', ''node'', ''nodes'',
            ''s'', ''storage'', ''v'', ''vm'', ''vms''}"
  then have c: "Arg args 0 = ''l'' \<or> Arg args 0 = ''ls'' \<or> Arg args 0 = ''list''"
    and u: "Arg args 1 \<notin> {''c'', ''cluster'', ''clusters'', ''n'', ''node'', ''nodes'',
            ''s'', ''storage'', ''v'', ''vm'', ''vms''}"
    by (rule conjunct1, rule conjunct2)
  have cmd: "Arg args 0 \<noteq> []"
    using c by (rule list_not_help)
  from ok show m: "main env w prog fl args =
           (Exit 0, wb,
            debug_log fl @
            [Call (client_args fl) CallNewClient,
             Call (client_args fl)
               (CallLogin (usernameWithRealm (username fl) (realm fl)) (password fl) (otp fl))] @
            help_command prog (Arg args 0))"
    by (simp add: main_logged_in [OF cmd] dispatch_list_unknown [OF c u] emit_simp)
  show "exit_code (fst (main env w prog fl args)) = 0"
    by (simp add: m)
qed

text \<open>
  C7, as stated, fails. The help command is looked at only after the login, and a failed
  login ends the run with exit status 1: the default password is not accepted by the
  example server. And a command line without a command that \<open>flag.Parse\<close> cannot read
  ends there, with exit status 2.
\<close>

theorem help_exit_code_counterexample:
  "Arg [''help''] 0 = ''help'' \<and>
   fst (main example_env 0 ''cli'' default_flags [''help'']) = Exit 1 \<and>
   exit_code (fst (main example_env 0 ''cli'' default_flags [''help''])) = 1 \<and>
   process example_env 0 ''cli'' [''help''] = main example_env 0 ''cli'' default_flags [''help''] \<and>
   Parse default_flags [''-nosuchflag''] = Bad_flags \<and>
   exit_code (fst (process example_env 0 ''cli'' [''-nosuchflag''])) = 2"
  by (simp add: main_def example_env_def default_flags_def Arg_def Let_def fst_emit
      process_def split_value_def)

text \<open>
  C7, amended: a run whose flags \<open>flag.Parse\<close> reads and that has no command ends with
  exit status 1 after the usage text, and calls nothing; so does the run with no
  argument at all. A run whose flags \<open>flag.Parse\<close> cannot read ends with exit status 2.
  When the creation of the client and the login succeed, the help command ends with
  exit status 0, and so does a list command whose object type is none of the known
  ones, after the help text.
\<close>

theorem exit_codes:
  "(Arg args 0 = [] \<longrightarrow>
      main env w prog fl args = (Exit 1, w, usage prog) \<and>
      exit_code (fst (main env w prog fl args)) = 1) \<and>
   (NewClient env w (client_args fl) = (None, wa) \<and>
    Login env wa (client_args fl) (usernameWithRealm (username fl) (realm fl))
      (password fl) (otp fl) = (None, wb) \<longrightarrow>
      ((Arg args 0 = ''h'' \<or> Arg args 0 = ''help'') \<longrightarrow>
         main env w prog fl args =
           (Exit 0, wb,
            debug_log fl @
            [Call (client_args fl) CallNewClient,
             Call (client_args fl)
               (CallLogin (usernameWithRealm (username fl) (realm fl)) (password fl) (otp fl))] @
            (if length args = 2 then help_command prog (Arg args 0) else usage prog)) \<and>
         exit_code (fst (main env w prog fl args)) = 0) \<and>
      ((Arg args 0 = ''l'' \<or> Arg args 0 = ''ls'' \<or> Arg args 0 = ''list'') \<and>
       Arg args 1 \<notin> {''c'', ''cluster'', ''clusters'', ''n'', ''node'', ''nodes'',
            ''s'', ''storage'', ''v'', ''vm'', ''vms''} \<longrightarrow>
         main env w prog fl args =
           (Exit 0, wb,
            debug_log fl @
            [Call (client_args fl) CallNewClient,
             Call (client_args fl)
               (CallLogin (usernameWithRealm (username fl) (realm fl)) (password fl) (otp fl))] @
            help_command prog (Arg args 0)) \<and>
         exit_code (fst (main env w prog fl args)) = 0)) \<and>
   (Parse default_flags argv = Parsed fl args \<longrightarrow>
      process env w prog argv = main env w prog fl args \<and>
      (Arg args 0 = [] \<longrightarrow>
         process env w prog argv = (Exit 1, w, usage prog) \<and>
         exit_code (fst (process env w prog argv)) = 1)) \<and>
   (Parse default_flags argv = Bad_flags \<longrightarrow>
      process env w prog argv = (Exit 2, w, []) \<and>
      exit_code (fst (process env w prog argv)) = 2) \<and>
   (Parse default_flags argv = Help_requested \<longrightarrow>
      process env w prog argv = (Exit 0, w, [])) \<and>
   (argv = [] \<or> length (hd argv) < 2 \<or> hd (hd argv) \<noteq> CHR ''-'' \<longrightarrow>
      Parse default_flags argv = Parsed default_flags argv \<and>
      process env w prog argv = main env w prog default_flags argv) \<and>
   process env w prog [] = (Exit 1, w, usage prog)"
  by (rule conjI [OF exit_codes_main [THEN conjunct1]
        conjI [OF exit_codes_main [THEN conjunct2] exit_codes_process]])

theorem exit_codes_witness:
  "Arg [] 0 = [] \<and>
   exit_code (fst (main example_env 0 ''cli'' example_flags [])) = 1 \<and>
   NewClient example_env 0 (client_args example_flags) = (None, 1) \<and>
   Login example_env 1 (client_args example_flags) ''root@pam'' ''secret'' [] = (None, 2) \<and>
   Arg [''help''] 0 = ''help'' \<and>
   exit_code (fst (main example_env 0 ''cli'' example_flags [''help''])) = 0 \<and>
   Arg [''list'', ''pool''] 0 = ''list'' \<and> Arg [''list'', ''pool''] 1 = ''pool'' \<and>
   exit_code (fst (main example_env 0 ''cli'' example_flags [''list'', ''pool''])) = 0 \<and>
   Parse default_flags [''-debug'', ''-password'', ''secret''] =
     Parsed (example_flags\<lparr>debug := True\<rparr>) [] \<and>
   exit_code (fst (process example_env 0 ''cli'' [''-debug'', ''-password'', ''secret''])) = 1 \<and>
   Parse default_flags [''-password''] = Bad_flags \<and>
   exit_code (fst (process example_env 0 ''cli'' [''-password''])) = 2 \<and>
   Parse default_flags [''-help''] = Help_requested \<and>
   process example_env 0 ''cli'' [''-help''] = (Exit 0, 0, []) \<and>
   hd (hd [''help'']) \<noteq> CHR ''-'' \<and>
   process example_env 0 ''cli'' [''help''] = main example_env 0 ''cli'' default_flags [''help'']"
proof -
  have ok: "NewClient example_env 0 (client_args example_flags) = (None, 1) \<and>
    Login example_env 1 (client_args example_flags)
      (usernameWithRealm (username example_flags) (realm example_flags))
      (password example_flags) (otp example_flags) = (None, 2)"
    by (simp add: example_env_def example_flags_def default_flags_def)
  have calls: "NewClient example_env 0 (client_args example_flags) = (None, 1)"
    "Login example_env 1 (client_args example_flags) ''root@pam'' ''secret'' [] = (None, 2)"
    by (simp_all add: example_env_def)
  have a: "Arg [] 0 = []" "Arg [''help''] 0 = ''help''"
    "Arg [''list'', ''pool''] 0 = ''list''" "Arg [''list'', ''pool''] 1 = ''pool''"
    by (simp_all add: Arg_def)
  have none: "exit_code (fst (main example_env 0 ''cli'' example_flags [])) = 1"
    using exit_codes [of "[]" example_env 0 "''cli''" example_flags, THEN conjunct1] a(1)
    by blast
  have hlp: "exit_code (fst (main example_env 0 ''cli'' example_flags [''help''])) = 0"
    using exit_codes [of "[''help'']" example_env 0 "''cli''" example_flags 1 2,
        THEN conjunct2, THEN conjunct1, THEN mp, OF ok, THEN conjunct1] a(2)
    by blast
  have pool: "exit_code (fst (main example_env 0 ''cli'' example_flags [''list'', ''pool''])) = 0"
    using exit_codes [of "[''list'', ''pool'']" example_env 0 "''cli''" example_flags 1 2,
        THEN conjunct2, THEN conjunct1, THEN mp, OF ok, THEN conjunct2] a(3,4)
    by simp
  have p: "Parse default_flags [''-debug'', ''-password'', ''secret''] =
     Parsed (example_flags\<lparr>debug := True\<rparr>) []"
    "Parse default_flags [''-password''] = Bad_flags"
    "Parse default_flags [''-help''] = Help_requested"
    by (simp_all add: split_value_def set_bool_def set_string_def example_flags_def
        default_flags_def)
  have q1: "exit_code (fst (process example_env 0 ''cli'' [''-debug'', ''-password'', ''secret''])) = 1"
    using exit_codes [where env = example_env and w = 0 and prog = "''cli''"
        and argv = "[''-debug'', ''-password'', ''secret'']"
        and fl = "example_flags\<lparr>debug := True\<rparr>" and args = "[]",
        THEN conjunct2, THEN conjunct2, THEN conjunct1, THEN mp, OF p(1), THEN conjunct2] a(1)
    by blast
  have q2: "exit_code (fst (process example_env 0 ''cli'' [''-password''])) = 2"
    using exit_codes [where env = example_env and w = 0 and prog = "''cli''"
        and argv = "[''-password'']",
        THEN conjunct2, THEN conjunct2, THEN conjunct2, THEN conjunct1, THEN mp, OF p(2)]
    by blast
  have q3: "process example_env 0 ''cli'' [''-help''] = (Exit 0, 0, [])"
    using exit_codes [where env = example_env and w = 0 and prog = "''cli''"
        and argv = "[''-help'']",
        THEN conjunct2, THEN conjunct2, THEN conjunct2, THEN conjunct2, THEN conjunct1,
        THEN mp, OF p(3)] .
  have q4: "process example_env 0 ''cli'' [''help''] =
      main example_env 0 ''cli'' default_flags [''help'']"
    using exit_codes [where env = example_env and w = 0 and prog = "''cli''"
        and argv = "[''help'']",
        THEN conjunct2, THEN conjunct2, THEN conjunct2, THEN conjunct2, THEN conjunct2,
        THEN conjunct1]
    by simp
  from none hlp pool calls a p q1 q2 q3 q4 show ?thesis by simp
qed

subsection \<open>Every call goes through the client\<close>

lemma through_emit:
  "list_all (through cl) (trace (emit t r)) \<longleftrightarrow>
     list_all (through cl) t \<and> list_all (through cl) (trace r)"
  by (simp add: trace_emit)

lemma through_and_then:
  assumes "list_all (through cl) (trace r)"
    and "\<And>w. list_all (through cl) (trace (k w))"
  shows "list_all (through cl) (trace (and_then r k))"
proof (cases r)
  case (fields oc w t)
  with assms show ?thesis
    by (cases oc) (simp_all add: and_then_def through_emit trace_simp)
qed

lemma through_listNodes_attrs: "list_all (through cl) (listNodes_attrs m)"
  by (induction m) auto

lemma through_listStorages_attrs: "list_all (through cl) (listStorages_attrs m)"
  by (induction m) auto

lemma through_listVMs_attrs: "list_all (through cl) (listVMs_attrs m)"
  by (induction m) auto

lemma through_listVMs_config: "list_all (through cl) (listVMs_config m)"
  by (induction m) auto

lemma through_listVMs_agent: "list_all (through cl) (listVMs_agent res)"
  by (cases res) (simp_all add: list_all_iff)

lemma through_listNodes_node:
  "list_all (through cl) (snd (listNodes_node node :: outcome \<times> ('r, 'i) event list))"
  by (simp add: listNodes_node_def through_listNodes_attrs split: option.splits)

lemma through_listNodes_nodes:
  "list_all (through cl) (snd (listNodes_nodes nodes :: outcome \<times> ('r, 'i) event list))"
proof (induction nodes)
  case Nil
  show ?case by simp
next
  case (Cons node nodes)
  obtain oc and t :: "('r, 'i) event list" where n: "listNodes_node node = (oc, t)"
    by fastforce
  obtain oc' and t' :: "('r, 'i) event list" where r: "listNodes_nodes nodes = (oc', t')"
    by fastforce
  from through_listNodes_node [of cl node, where ?'r = 'r and ?'i = 'i] n have "list_all (through cl) t" by simp
  moreover from Cons.IH r have "list_all (through cl) t'" by simp
  ultimately show ?case by (cases oc) (simp_all add: n r)
qed

lemma through_listNodes_infos:
  "list_all (through cl) (snd (listNodes_infos infos :: outcome \<times> ('r, 'i) event list))"
proof (induction infos)
  case Nil
  show ?case by simp
next
  case (Cons nodeInfo infos)
  show ?case
  proof (cases "assert_list nodeInfo")
    case None
    then show ?thesis by simp
  next
    case (Some nodes)
    obtain oc and t :: "('r, 'i) event list" where n: "listNodes_nodes nodes = (oc, t)"
      by fastforce
    obtain oc' and t' :: "('r, 'i) event list" where r: "listNodes_infos infos = (oc', t')"
      by fastforce
    from through_listNodes_nodes [of cl nodes, where ?'r = 'r and ?'i = 'i] n have "list_all (through cl) t" by simp
    moreover from Cons.IH r have "list_all (through cl) t'" by simp
    ultimately show ?thesis by (cases oc) (simp_all add: Some n r)
  qed
qed

lemma through_listNodes:
  "list_all (through cl) (trace (listNodes env w cl :: ('w, 'r, 'i) run))"
proof (cases "GetNodeList env w cl")
  case (Pair res w')
  show ?thesis
  proof (cases res)
    case (Inl err)
    with Pair show ?thesis by (simp add: listNodes_def trace_simp)
  next
    case (Inr nodes)
    obtain oc and t :: "('r, 'i) event list" where n: "listNodes_infos nodes = (oc, t)"
      by fastforce
    from through_listNodes_infos [of cl nodes, where ?'r = 'r and ?'i = 'i] n have "list_all (through cl) t" by simp
    with Pair Inr n show ?thesis
      by (simp add: listNodes_def trace_simp)
  qed
qed

lemma through_listStorages_storage:
  "list_all (through cl) (snd (listStorages_storage storage :: outcome \<times> ('r, 'i) event list))"
  by (simp add: listStorages_storage_def through_listStorages_attrs split: option.splits)

lemma through_listStorages_storages:
  "list_all (through cl) (snd (listStorages_storages storages :: outcome \<times> ('r, 'i) event list))"
proof (induction storages)
  case Nil
  show ?case by simp
next
  case (Cons storage storages)
  obtain oc and t :: "('r, 'i) event list" where n: "listStorages_storage storage = (oc, t)"
    by fastforce
  obtain oc' and t' :: "('r, 'i) event list" where r: "listStorages_storages storages = (oc', t')"
    by fastforce
  from through_listStorages_storage [of cl storage, where ?'r = 'r and ?'i = 'i] n have "list_all (through cl) t" by simp
  moreover from Cons.IH r have "list_all (through cl) t'" by simp
  ultimately show ?case by (cases oc) (simp_all add: n r)
qed

lemma through_listStorages_node:
  "list_all (through cl) (trace (listStorages_node env w cl node :: ('w, 'r, 'i) run))"
proof (cases "assert_map node")
  case None
  then show ?thesis by (simp add: listStorages_node_def trace_simp)
next
  case (Some m)
  show ?thesis
  proof (cases "assert_string (index m ''node'')")
    case None
    with Some show ?thesis by (simp add: listStorages_node_def trace_simp)
  next
    case (Some nodeName)
    obtain res w' where c: "ListStorages env w cl nodeName = (res, w')"
      by (cases "ListStorages env w cl nodeName")
    show ?thesis
    proof (cases res)
      case (Inl err)
      with \<open>assert_map node = Some m\<close> Some c show ?thesis
        by (simp add: listStorages_node_def through_emit trace_simp)
    next
      case (Inr storages)
      obtain oc and t :: "('r, 'i) event list" where n: "listStorages_storages storages = (oc, t)"
        by fastforce
      from through_listStorages_storages [of cl storages, where ?'r = 'r and ?'i = 'i] n
      have "list_all (through cl) t" by simp
      with \<open>assert_map node = Some m\<close> Some c Inr n show ?thesis
        by (simp add: listStorages_node_def through_emit trace_simp)
    qed
  qed
qed

lemma through_listStorages_nodes:
  "list_all (through cl) (trace (listStorages_nodes env w cl nodes))"
proof (induction nodes arbitrary: w)
  case Nil
  show ?case by (simp add: trace_simp)
next
  case (Cons node nodes)
  show ?case
    by (simp add: through_and_then through_listStorages_node Cons.IH)
qed

lemma through_listStorages_infos:
  "list_all (through cl) (trace (listStorages_infos env w cl infos))"
proof (induction infos arbitrary: w)
  case Nil
  show ?case by (simp add: trace_simp)
next
  case (Cons nodeInfo infos)
  show ?case
    by (cases "assert_list nodeInfo")
      (simp_all add: trace_simp through_and_then through_listStorages_nodes Cons.IH)
qed

lemma through_listStorages: "list_all (through cl) (trace (listStorages env w cl))"
proof (cases "GetNodeList env w cl")
  case (Pair res w')
  then show ?thesis
    by (cases res)
      (simp_all add: listStorages_def through_emit trace_simp through_listStorages_infos)
qed

lemma through_listVMs_vm: "list_all (through cl) (trace (listVMs_vm env w cl vm))"
proof (cases "assert_map vm")
  case None
  then show ?thesis by (simp add: listVMs_vm_def trace_simp)
next
  case (Some m)
  let ?name = "fst (string_ok (index m ''name''))"
  obtain r wa where a: "GetVmRefByName env w cl ?name = (r, wa)"
    by (cases "GetVmRefByName env w cl ?name")
  show ?thesis
  proof (cases r)
    case (Inl err)
    with Some a show ?thesis
      by (simp add: listVMs_vm_def Let_def through_emit trace_simp through_listVMs_attrs)
  next
    case (Inr vmRef)
    obtain c wb where b: "GetVmConfig env wa cl vmRef = (c, wb)"
      by (cases "GetVmConfig env wa cl vmRef")
    obtain res wc where d: "GetVmAgentNetworkInterfaces env wb cl vmRef = (res, wc)"
      by (cases "GetVmAgentNetworkInterfaces env wb cl vmRef")
    from Some a Inr b d show ?thesis
      by (cases c)
        (simp_all add: listVMs_vm_def Let_def through_emit trace_simp through_listVMs_attrs
          through_listVMs_config through_listVMs_agent)
  qed
qed

lemma through_listVMs_vms: "list_all (through cl) (trace (listVMs_vms env w cl vms))"
proof (induction vms arbitrary: w)
  case Nil
  show ?case by (simp add: trace_simp)
next
  case (Cons vm vms)
  show ?case
    by (simp add: through_and_then through_listVMs_vm Cons.IH)
qed

lemma through_listVMs_infos: "list_all (through cl) (trace (listVMs_infos env w cl infos))"
proof (induction infos arbitrary: w)
  case Nil
  show ?case by (simp add: trace_simp)
next
  case (Cons vmInfo infos)
  show ?case
    by (cases "assert_list vmInfo")
      (simp_all add: trace_simp through_and_then through_listVMs_vms Cons.IH)
qed

lemma through_listVMs: "list_all (through cl) (trace (listVMs env w cl))"
proof (cases "GetVmList env w cl")
  case (Pair res w')
  then show ?thesis
    by (cases res) (simp_all add: listVMs_def through_emit trace_simp through_listVMs_infos)
qed

lemma through_dispatch: "list_all (through cl) (trace (dispatch env w cl prog args))"
  by (simp add: dispatch_def Let_def trace_simp usage_def help_command_def listClusters_def
      through_listNodes through_listStorages through_listVMs)

lemma through_main: "list_all (through (client_args fl)) (trace (main env w prog fl args))"
proof (cases "Arg args 0 = []")
  case True
  then show ?thesis by (simp add: main_def trace_simp usage_def)
next
  case False
  let ?cl = "client_args fl"
  let ?p = "usernameWithRealm (username fl) (realm fl)"
  obtain e wa where a: "NewClient env w ?cl = (e, wa)"
    by (cases "NewClient env w ?cl")
  obtain e' wb where b: "Login env wa ?cl ?p (password fl) (otp fl) = (e', wb)"
    by (cases "Login env wa ?cl ?p (password fl) (otp fl)")
  have d: "list_all (through ?cl) (debug_log fl)"
    by (simp add: debug_log_def)
  show ?thesis
  proof (cases e)
    case (Some err)
    with False a d show ?thesis
      by (simp add: main_def Let_def through_emit trace_simp)
  next
    case None
    with False a b d show ?thesis
      by (cases e') (simp_all add: main_def Let_def through_emit trace_simp through_dispatch)
  qed
qed

subsection \<open>What a run writes to the logger\<close>

lemma quiet_or_fatal_Return:
  "fst r = Return \<Longrightarrow> quiet_or_fatal r \<longleftrightarrow> filter is_log (trace r) = []"
  by (simp add: quiet_or_fatal_def split: list.splits)

lemma quiet_or_fatal_emit:
  assumes "filter is_log t = []" and "quiet_or_fatal r"
  shows "quiet_or_fatal (emit t r)"
proof (cases "filter is_log (trace r)")
  case Nil
  with assms show ?thesis by (simp add: quiet_or_fatal_def trace_emit)
next
  case (Cons e es)
  then have "trace r \<noteq> []" by auto
  with assms Cons show ?thesis
    by (simp add: quiet_or_fatal_def trace_emit fst_emit split: list.splits)
qed

lemma quiet_or_fatal_and_then:
  assumes "quiet_or_fatal r"
    and "\<And>w. quiet_or_fatal (k w)"
  shows "quiet_or_fatal (and_then r k)"
proof (cases r)
  case (fields oc w t)
  show ?thesis
  proof (cases "oc = Return")
    case True
    with fields assms(1) have "filter is_log t = []"
      by (simp add: trace_simp quiet_or_fatal_Return)
    with True fields assms(2) [of w] show ?thesis
      by (simp add: and_then_Return quiet_or_fatal_emit)
  next
    case False
    with fields assms(1) show ?thesis
      by (simp add: and_then_stop)
  qed
qed

lemma quiet_or_fatal_if:
  "quiet_or_fatal a \<Longrightarrow> quiet_or_fatal b \<Longrightarrow> quiet_or_fatal (if c then a else b)"
  by simp

lemma nolog_listNodes_attrs: "filter is_log (listNodes_attrs m) = []"
  by (induction m) auto

lemma nolog_listStorages_attrs: "filter is_log (listStorages_attrs m) = []"
  by (induction m) auto

lemma nolog_listVMs_attrs: "filter is_log (listVMs_attrs m) = []"
  by (induction m) auto

lemma nolog_listVMs_config: "filter is_log (listVMs_config m) = []"
  by (induction m) auto

lemma nolog_listVMs_agent: "filter is_log (listVMs_agent res) = []"
  by (cases res) (simp_all add: filter_empty_conv)

lemma nolog_listNodes_node:
  "filter is_log (snd (listNodes_node node :: outcome \<times> ('r, 'i) event list)) = []"
  by (simp add: listNodes_node_def nolog_listNodes_attrs split: option.splits)

lemma nolog_listNodes_nodes:
  "filter is_log (snd (listNodes_nodes nodes :: outcome \<times> ('r, 'i) event list)) = []"
proof (induction nodes)
  case Nil
  show ?case by simp
next
  case (Cons node nodes)
  obtain oc and t :: "('r, 'i) event list" where n: "listNodes_node node = (oc, t)"
    by fastforce
  obtain oc' and t' :: "('r, 'i) event list" where r: "listNodes_nodes nodes = (oc', t')"
    by fastforce
  from nolog_listNodes_node [of node, where ?'r = 'r and ?'i = 'i] n
  have "filter is_log t = []" by simp
  moreover from Cons.IH r have "filter is_log t' = []" by simp
  ultimately show ?case by (cases oc) (simp_all add: n r)
qed

lemma nolog_listNodes_infos:
  "filter is_log (snd (listNodes_infos infos :: outcome \<times> ('r, 'i) event list)) = []"
proof (induction infos)
  case Nil
  show ?case by simp
next
  case (Cons nodeInfo infos)
  show ?case
  proof (cases "assert_list nodeInfo")
    case None
    then show ?thesis by simp
  next
    case (Some nodes)
    obtain oc and t :: "('r, 'i) event list" where n: "listNodes_nodes nodes = (oc, t)"
      by fastforce
    obtain oc' and t' :: "('r, 'i) event list" where r: "listNodes_infos infos = (oc', t')"
      by fastforce
    from nolog_listNodes_nodes [of nodes, where ?'r = 'r and ?'i = 'i] n
    have "filter is_log t = []" by simp
    moreover from Cons.IH r have "filter is_log t' = []" by simp
    ultimately show ?thesis by (cases oc) (simp_all add: Some n r)
  qed
qed

lemma logs_listNodes:
  "quiet_or_fatal (listNodes env w cl :: ('w, 'r, 'i) run)"
proof (cases "GetNodeList env w cl")
  case (Pair res w')
  show ?thesis
  proof (cases res)
    case (Inl err)
    with Pair show ?thesis
      by (simp add: listNodes_def trace_simp quiet_or_fatal_def fatal_message_def)
  next
    case (Inr nodes)
    obtain oc and t :: "('r, 'i) event list" where n: "listNodes_infos nodes = (oc, t)"
      by fastforce
    from nolog_listNodes_infos [of nodes, where ?'r = 'r and ?'i = 'i] n
    have "filter is_log t = []" by simp
    with Pair Inr n show ?thesis
      by (simp add: listNodes_def trace_simp quiet_or_fatal_def)
  qed
qed

lemma nolog_listStorages_storage:
  "filter is_log (snd (listStorages_storage storage :: outcome \<times> ('r, 'i) event list)) = []"
  by (simp add: listStorages_storage_def nolog_listStorages_attrs split: option.splits)

lemma nolog_listStorages_storages:
  "filter is_log (snd (listStorages_storages storages :: outcome \<times> ('r, 'i) event list)) = []"
proof (induction storages)
  case Nil
  show ?case by simp
next
  case (Cons storage storages)
  obtain oc and t :: "('r, 'i) event list" where n: "listStorages_storage storage = (oc, t)"
    by fastforce
  obtain oc' and t' :: "('r, 'i) event list" where r: "listStorages_storages storages = (oc', t')"
    by fastforce
  from nolog_listStorages_storage [of storage, where ?'r = 'r and ?'i = 'i] n
  have "filter is_log t = []" by simp
  moreover from Cons.IH r have "filter is_log t' = []" by simp
  ultimately show ?case by (cases oc) (simp_all add: n r)
qed

lemma logs_listStorages_node:
  "quiet_or_fatal (listStorages_node env w cl node :: ('w, 'r, 'i) run)"
proof (cases "assert_map node")
  case None
  then show ?thesis by (simp add: listStorages_node_def trace_simp quiet_or_fatal_def)
next
  case (Some m)
  show ?thesis
  proof (cases "assert_string (index m ''node'')")
    case None
    with Some show ?thesis by (simp add: listStorages_node_def trace_simp quiet_or_fatal_def)
  next
    case (Some nodeName)
    obtain res w' where c: "ListStorages env w cl nodeName = (res, w')"
      by (cases "ListStorages env w cl nodeName")
    show ?thesis
    proof (cases res)
      case (Inl err)
      with \<open>assert_map node = Some m\<close> Some c show ?thesis
        by (simp add: listStorages_node_def emit_simp trace_simp quiet_or_fatal_def
            fatal_message_def)
    next
      case (Inr storages)
      obtain oc and t :: "('r, 'i) event list" where n: "listStorages_storages storages = (oc, t)"
        by fastforce
      from nolog_listStorages_storages [of storages, where ?'r = 'r and ?'i = 'i] n
      have "filter is_log t = []" by simp
      with \<open>assert_map node = Some m\<close> Some c Inr n show ?thesis
        by (simp add: listStorages_node_def emit_simp trace_simp quiet_or_fatal_def)
    qed
  qed
qed

lemma logs_listStorages_nodes:
  "quiet_or_fatal (listStorages_nodes env w cl nodes)"
proof (induction nodes arbitrary: w)
  case Nil
  show ?case by (simp add: trace_simp quiet_or_fatal_def)
next
  case (Cons node nodes)
  show ?case
    by (simp add: quiet_or_fatal_and_then logs_listStorages_node Cons.IH)
qed

lemma logs_listStorages_infos:
  "quiet_or_fatal (listStorages_infos env w cl infos)"
proof (induction infos arbitrary: w)
  case Nil
  show ?case by (simp add: trace_simp quiet_or_fatal_def)
next
  case (Cons nodeInfo infos)
  show ?case
  proof (cases "assert_list nodeInfo")
    case None
    then show ?thesis by (simp add: trace_simp quiet_or_fatal_def)
  next
    case (Some nodes)
    then show ?thesis
      by (simp add: quiet_or_fatal_and_then logs_listStorages_nodes Cons.IH)
  qed
qed

lemma logs_listStorages:
  "quiet_or_fatal (listStorages env w cl)"
proof (cases "GetNodeList env w cl")
  case (Pair res w')
  show ?thesis
  proof (cases res)
    case (Inl err)
    with Pair show ?thesis
      by (simp add: listStorages_def trace_simp quiet_or_fatal_def fatal_message_def)
  next
    case (Inr nodes)
    with Pair show ?thesis
      by (simp add: listStorages_def quiet_or_fatal_emit logs_listStorages_infos)
  qed
qed

lemma logs_listVMs_vm:
  "quiet_or_fatal (listVMs_vm env w cl vm)"
proof (cases "assert_map vm")
  case None
  then show ?thesis by (simp add: listVMs_vm_def trace_simp quiet_or_fatal_def)
next
  case (Some m)
  let ?name = "fst (string_ok (index m ''name''))"
  obtain r wa where a: "GetVmRefByName env w cl ?name = (r, wa)"
    by (cases "GetVmRefByName env w cl ?name")
  show ?thesis
  proof (cases r)
    case (Inl err)
    with Some a show ?thesis
      by (simp add: listVMs_vm_def Let_def emit_simp trace_simp nolog_listVMs_attrs
          quiet_or_fatal_def fatal_message_def)
  next
    case (Inr vmRef)
    obtain c wb where b: "GetVmConfig env wa cl vmRef = (c, wb)"
      by (cases "GetVmConfig env wa cl vmRef")
    obtain res wc where d: "GetVmAgentNetworkInterfaces env wb cl vmRef = (res, wc)"
      by (cases "GetVmAgentNetworkInterfaces env wb cl vmRef")
    from Some a Inr b d show ?thesis
      by (cases c)
        (simp_all add: listVMs_vm_def Let_def emit_simp trace_simp nolog_listVMs_attrs
          nolog_listVMs_config nolog_listVMs_agent quiet_or_fatal_def fatal_message_def)
  qed
qed

lemma logs_listVMs_vms:
  "quiet_or_fatal (listVMs_vms env w cl vms)"
proof (induction vms arbitrary: w)
  case Nil
  show ?case by (simp add: trace_simp quiet_or_fatal_def)
next
  case (Cons vm vms)
  show ?case
    by (simp add: quiet_or_fatal_and_then logs_listVMs_vm Cons.IH)
qed

lemma logs_listVMs_infos:
  "quiet_or_fatal (listVMs_infos env w cl infos)"
proof (induction infos arbitrary: w)
  case Nil
  show ?case by (simp add: trace_simp quiet_or_fatal_def)
next
  case (Cons vmInfo infos)
  show ?case
  proof (cases "assert_list vmInfo")
    case None
    then show ?thesis by (simp add: trace_simp quiet_or_fatal_def)
  next
    case (Some vms)
    then show ?thesis
      by (simp add: quiet_or_fatal_and_then logs_listVMs_vms Cons.IH)
  qed
qed

lemma logs_listVMs:
  "quiet_or_fatal (listVMs env w cl)"
proof (cases "GetVmList env w cl")
  case (Pair res w')
  show ?thesis
  proof (cases res)
    case (Inl err)
    with Pair show ?thesis
      by (simp add: listVMs_def trace_simp quiet_or_fatal_def fatal_message_def)
  next
    case (Inr vms)
    with Pair show ?thesis
      by (simp add: listVMs_def quiet_or_fatal_emit logs_listVMs_infos)
  qed
qed

lemma logs_dispatch:
  "quiet_or_fatal (dispatch env w cl prog args)"
proof -
  have stop: "quiet_or_fatal (Exit 0, w, help_command prog c)"
    "quiet_or_fatal (Exit 0, w, usage prog)" "quiet_or_fatal (Return, w, [])" for c
    by (simp_all add: quiet_or_fatal_def trace_simp help_command_def usage_def)
  have cluster: "quiet_or_fatal (listClusters w cl)"
    by (simp add: quiet_or_fatal_def trace_simp listClusters_def fatal_message_def)
  show ?thesis
    unfolding dispatch_def Let_def
    by (intro quiet_or_fatal_if stop cluster logs_listNodes logs_listStorages logs_listVMs)
qed

text \<open>After the debug line, the run of \<open>main\<close> logs nothing, or one fatal message.\<close>

lemma logs_main:
  "\<exists>r. main env w prog fl args = emit (if Arg args 0 = [] then [] else debug_log fl) r \<and>
     quiet_or_fatal r"
proof (cases "Arg args 0 = []")
  case True
  then show ?thesis
    by (simp add: main_def emit_Nil trace_simp usage_def quiet_or_fatal_def
        del: split_paired_Ex)
next
  case False
  let ?cl = "client_args fl"
  let ?p = "usernameWithRealm (username fl) (realm fl)"
  obtain e wa where a: "NewClient env w ?cl = (e, wa)"
    by (cases "NewClient env w ?cl")
  obtain e' wb where b: "Login env wa ?cl ?p (password fl) (otp fl) = (e', wb)"
    by (cases "Login env wa ?cl ?p (password fl) (otp fl)")
  show ?thesis
  proof (cases e)
    case (Some err)
    with False a show ?thesis
      by (intro exI [of _ "(Exit 1, wa,
          [Call ?cl CallNewClient, Log_Println [Str ''Failed to create client'', Str err]])"])
        (simp add: main_def Let_def trace_simp quiet_or_fatal_def fatal_message_def)
  next
    case None
    show ?thesis
    proof (cases e')
      case (Some err)
      with False a b None show ?thesis
        by (intro exI [of _ "(Exit 1, wb,
            [Call ?cl CallNewClient, Call ?cl (CallLogin ?p (password fl) (otp fl)),
             Log_Println [Str ''Failed to login'', Str err]])"])
          (simp add: main_def Let_def emit_simp trace_simp quiet_or_fatal_def fatal_message_def)
    next
      case None
      with False a b \<open>e = None\<close> show ?thesis
        by (intro exI [of _ "emit [Call ?cl CallNewClient,
              Call ?cl (CallLogin ?p (password fl) (otp fl))] (dispatch env wb ?cl prog args)"])
          (simp add: main_def Let_def emit_emit quiet_or_fatal_emit logs_dispatch)
    qed
  qed
qed

lemma filter_debug_log: "filter is_log (debug_log fl) = debug_log fl"
  by (simp add: debug_log_def)

lemma diagnostics_main:
  "\<exists>ds. diagnostics (main env w prog fl args) =
          (if Arg args 0 = [] then [] else debug_log fl) @ ds \<and>
        (ds = [] \<or>
         (\<exists>e. ds = [e] \<and> fst (main env w prog fl args) = Exit 1 \<and>
              last (trace (main env w prog fl args)) = e \<and> fatal_message e))"
proof -
  from logs_main [of env w prog fl args] obtain r
    where m: "main env w prog fl args = emit (if Arg args 0 = [] then [] else debug_log fl) r"
      and q: "quiet_or_fatal r"
    by blast
  have d: "diagnostics (main env w prog fl args) =
      (if Arg args 0 = [] then [] else debug_log fl) @ filter is_log (trace r)"
    by (simp add: diagnostics_def m trace_emit filter_debug_log)
  show ?thesis
  proof (cases "filter is_log (trace r)")
    case Nil
    with d show ?thesis by simp
  next
    case (Cons e es)
    then have n: "trace r \<noteq> []" by auto
    from q Cons have es: "es = []" and x: "fst r = Exit 1" and f: "fatal_message e"
      and l: "last (trace r) = e"
      by (simp_all add: quiet_or_fatal_def split: list.splits)
    have "fst (main env w prog fl args) = Exit 1"
      by (simp add: m fst_emit x)
    moreover have "last (trace (main env w prog fl args)) = e"
      by (simp add: m trace_emit n l)
    moreover have "diagnostics (main env w prog fl args) =
        (if Arg args 0 = [] then [] else debug_log fl) @ [e]"
      using d Cons es by simp
    ultimately show ?thesis
      using f by blast
  qed
qed

subsection \<open>Skipping the verification of certificates\<close>

text \<open>
  C8, as stated, fails: nothing warns of the skipped verification. With \<open>-skiptls\<close> and
  without \<open>-debug\<close> a run that lists the nodes writes nothing at all to the logger.
\<close>

theorem skiptls_warning_counterexample:
  "skipTLSVerify (example_flags\<lparr>skipTLSVerify := True\<rparr>) \<and>
   fst (main example_env 0 ''cli'' (example_flags\<lparr>skipTLSVerify := True\<rparr>) [''list'', ''node''])
     = Return \<and>
   diagnostics
     (main example_env 0 ''cli'' (example_flags\<lparr>skipTLSVerify := True\<rparr>) [''list'', ''node''])
     = []"
  by (simp add: main_def dispatch_def listNodes_def listNodes_node_def index_def
      example_env_def example_flags_def default_flags_def Arg_def debug_log_def emit_def
      diagnostics_def trace_def Let_def)

text \<open>
  C8, amended: with \<open>skipTLSVerify\<close> set, every call of the run goes through the one
  client of the run, whose transport does not verify certificates. No warning is
  emitted: when a command is given, the run starts with the debug line if \<open>debug\<close> is
  set, and that line ends with \<open>while skipping tls? true\<close>; the creation of the client
  follows immediately. All that a run writes to the logger is that debug line and, at
  most, one message of a fatal error, which is the last event of the run and comes
  with the exit status 1.
\<close>

theorem skiptls_transport:
  assumes "skipTLSVerify fl"
  shows "(\<forall>c a. Call c a \<in> set (trace (main env w prog fl args)) \<longrightarrow>
            c = client_args fl \<and> InsecureSkipVerify (HttpClient c)) \<and>
         (Arg args 0 \<noteq> [] \<longrightarrow>
            (\<exists>t. trace (main env w prog fl args) =
               debug_log fl @ Call (client_args fl) CallNewClient # t) \<and>
            debug_log fl =
              (if debug fl then
                 [Log_Println
                    [Str ''Connecting to'', Ptr_serverURL,
                     Str ''with username'', Str (username fl),
                     Str ''and password'', Str (password fl),
                     Str ''while skipping tls?'', Str ''true'']]
               else [])) \<and>
         (\<exists>ds. diagnostics (main env w prog fl args) =
                 (if Arg args 0 = [] then [] else debug_log fl) @ ds \<and>
               (ds = [] \<or>
                (\<exists>e. ds = [e] \<and> fst (main env w prog fl args) = Exit 1 \<and>
                   last (trace (main env w prog fl args)) = e \<and>
                   ((\<exists>err. e = Log_Println [Str ''Failed to create client'', Str err]) \<or>
                 (\<exists>err. e = Log_Println [Str ''Failed to login'', Str err]) \<or>
                 e = Log_Println [Str ''Cluster operations are not yet supported :(''] \<or>
                 (\<exists>err. e = Log_Println [Str ''Failed to list nodes'', Str err]) \<or>
                 (\<exists>nodeName err.
                    e = Log_Printf (''Failed to fetch storages for node %s: %s'' @ nl)
                          [Str nodeName, Str err]) \<or>
                 (\<exists>err. e = Log_Println [Str ''Failed to list VMs'', Str err]) \<or>
                 (\<exists>err. e = Log_Println [Str ''Failed to get VM reference'', Str err]) \<or>
                 (\<exists>err. e = Log_Println [Str ''Failed to get VM config'', Str err])))))"
proof (intro conjI allI impI)
  fix c a
  assume "Call c a \<in> set (trace (main env w prog fl args))"
  with through_main [of fl env w prog args] have "through (client_args fl) (Call c a)"
    by (auto simp: list_all_iff)
  then show c: "c = client_args fl" by simp
  from assms show "InsecureSkipVerify (HttpClient c)"
    by (simp add: c client_args_def httpClient_def)
next
  assume cmd: "Arg args 0 \<noteq> []"
  obtain e wa where n: "NewClient env w (client_args fl) = (e, wa)"
    by (cases "NewClient env w (client_args fl)")
  show "\<exists>t. trace (main env w prog fl args) =
               debug_log fl @ Call (client_args fl) CallNewClient # t"
  proof (cases e)
    case None
    with cmd n show ?thesis
      by (simp add: main_def Let_def trace_emit)
  next
    case (Some err)
    with cmd n show ?thesis
      by (simp add: main_def Let_def trace_emit trace_simp)
  qed
  from assms show "debug_log fl =
              (if debug fl then
                 [Log_Println
                    [Str ''Connecting to'', Ptr_serverURL,
                     Str ''with username'', Str (username fl),
                     Str ''and password'', Str (password fl),
                     Str ''while skipping tls?'', Str ''true'']]
               else [])"
    by (simp add: debug_log_def debug_operands_def)
next
  show "\<exists>ds. diagnostics (main env w prog fl args) =
                 (if Arg args 0 = [] then [] else debug_log fl) @ ds \<and>
               (ds = [] \<or>
                (\<exists>e. ds = [e] \<and> fst (main env w prog fl args) = Exit 1 \<and>
                   last (trace (main env w prog fl args)) = e \<and>
                   ((\<exists>err. e = Log_Println [Str ''Failed to create client'', Str err]) \<or>
                 (\<exists>err. e = Log_Println [Str ''Failed to login'', Str err]) \<or>
                 e = Log_Println [Str ''Cluster operations are not yet supported :(''] \<or>
                 (\<exists>err. e = Log_Println [Str ''Failed to list nodes'', Str err]) \<or>
                 (\<exists>nodeName err.
                    e = Log_Printf (''Failed to fetch storages for node %s: %s'' @ nl)
                          [Str nodeName, Str err]) \<or>
                 (\<exists>err. e = Log_Println [Str ''Failed to list VMs'', Str err]) \<or>
                 (\<exists>err. e = Log_Println [Str ''Failed to get VM reference'', Str err]) \<or>
                 (\<exists>err. e = Log_Println [Str ''Failed to get VM config'', Str err]))))"
    by (rule diagnostics_main [unfolded fatal_message_def])
qed

theorem skiptls_transport_witness:
  "skipTLSVerify (example_flags\<lparr>skipTLSVerify := True\<rparr>) \<and>
   Call (client_args (example_flags\<lparr>skipTLSVerify := True\<rparr>)) CallGetNodeList
     \<in> set (trace (main example_env 0 ''cli'' (example_flags\<lparr>skipTLSVerify := True\<rparr>)
          [''list'', ''node''])) \<and>
   InsecureSkipVerify (HttpClient (client_args (example_flags\<lparr>skipTLSVerify := True\<rparr>))) \<and>
   Arg [''list'', ''node''] 0 \<noteq> []"
proof -
  let ?fl = "example_flags\<lparr>skipTLSVerify := True\<rparr>"
  have s: "skipTLSVerify ?fl" by simp
  have c: "Call (client_args ?fl) CallGetNodeList
     \<in> set (trace (main example_env 0 ''cli'' ?fl [''list'', ''node'']))"
    by (simp add: main_def dispatch_def listNodes_def listNodes_node_def index_def
      example_env_def example_flags_def default_flags_def Arg_def debug_log_def emit_def
      trace_def Let_def)
  have a: "Arg [''list'', ''node''] 0 \<noteq> []" by (simp add: Arg_def)
  note T = skiptls_transport [OF s, of example_env 0 "''cli''" "[''list'', ''node'']"]
  from T [THEN conjunct1] c
  have "InsecureSkipVerify (HttpClient (client_args ?fl))"
    by blast
  with s c a show ?thesis by simp
qed

subsection \<open>The password in the debug line\<close>

lemma Sprintln_debug_operands:
  "Sprintln fmt (debug_operands fl) =
     ''Connecting to '' @ fmt Ptr_serverURL @ '' with username '' @ username fl @
     '' and password '' @ password fl @ '' while skipping tls? '' @
     (if skipTLSVerify fl then ''true'' else ''false'') @ nl"
  by (simp add: Sprintln_def debug_operands_def)

text \<open>
  C10, as stated, fails: without a command the run ends at line 60, before the debug
  line, so that two runs with \<open>-debug\<close> and different passwords write the same
  diagnostics, namely none.
\<close>

theorem debug_password_counterexample:
  "debug (default_flags\<lparr>debug := True, password := ''one''\<rparr>) \<and>
   debug (default_flags\<lparr>debug := True, password := ''two''\<rparr>) \<and>
   diagnostics (main example_env 0 ''cli'' (default_flags\<lparr>debug := True, password := ''one''\<rparr>) [])
     = [] \<and>
   diagnostics (main example_env 0 ''cli'' (default_flags\<lparr>debug := True, password := ''two''\<rparr>) [])
     = []"
  by (simp add: main_def Arg_def usage_def diagnostics_def trace_def)

text \<open>
  C10, amended: when \<open>debug\<close> is set and a command is given, the first event of the run,
  before any call of the client, is the debug line, whose text holds the password in
  the clear; two such runs that differ only in the password differ in their
  diagnostics, and the texts of their debug lines differ.
\<close>

theorem debug_line_leaks_password:
  assumes "debug fl" and "Arg args 0 \<noteq> []"
  shows "(\<exists>t. trace (main env w prog fl args) =
            Log_Println
              [Str ''Connecting to'', Ptr_serverURL,
               Str ''with username'', Str (username fl),
               Str ''and password'', Str (password fl),
               Str ''while skipping tls?'',
               Str (if skipTLSVerify fl then ''true'' else ''false'')] # t) \<and>
         Sprintln fmt (debug_operands fl) =
           ''Connecting to '' @ fmt Ptr_serverURL @ '' with username '' @ username fl @
           '' and password '' @ password fl @ '' while skipping tls? '' @
           (if skipTLSVerify fl then ''true'' else ''false'') @ nl \<and>
         (\<forall>p. p \<noteq> password fl \<longrightarrow>
            diagnostics (main env w prog (fl\<lparr>password := p\<rparr>) args) \<noteq>
              diagnostics (main env w prog fl args) \<and>
            Sprintln fmt (debug_operands (fl\<lparr>password := p\<rparr>)) \<noteq>
              Sprintln fmt (debug_operands fl))"
proof (intro conjI allI impI)
  have m: "\<exists>t. trace (main env w prog f args) = Log_Println (debug_operands f) # t"
    if "debug f" for f
    using that assms(2) by (simp add: main_def debug_log_def trace_emit)
  from m [OF assms(1)] show "\<exists>t. trace (main env w prog fl args) =
            Log_Println
              [Str ''Connecting to'', Ptr_serverURL,
               Str ''with username'', Str (username fl),
               Str ''and password'', Str (password fl),
               Str ''while skipping tls?'',
               Str (if skipTLSVerify fl then ''true'' else ''false'')] # t"
    by (simp add: debug_operands_def)
  show "Sprintln fmt (debug_operands fl) =
           ''Connecting to '' @ fmt Ptr_serverURL @ '' with username '' @ username fl @
           '' and password '' @ password fl @ '' while skipping tls? '' @
           (if skipTLSVerify fl then ''true'' else ''false'') @ nl"
    by (rule Sprintln_debug_operands)
  fix p
  assume p: "p \<noteq> password fl"
  from m [OF assms(1)] obtain t
    where r: "trace (main env w prog fl args) = Log_Println (debug_operands fl) # t"
    by blast
  from assms(1) have "debug (fl\<lparr>password := p\<rparr>)" by simp
  from m [OF this] obtain t'
    where r': "trace (main env w prog (fl\<lparr>password := p\<rparr>) args) =
       Log_Println (debug_operands (fl\<lparr>password := p\<rparr>)) # t'"
    by blast
  from p show "diagnostics (main env w prog (fl\<lparr>password := p\<rparr>) args) \<noteq>
              diagnostics (main env w prog fl args)"
    by (simp add: diagnostics_def r r' debug_operands_def)
  from p show "Sprintln fmt (debug_operands (fl\<lparr>password := p\<rparr>)) \<noteq>
              Sprintln fmt (debug_operands fl)"
    by (simp add: Sprintln_debug_operands)
qed

theorem debug_line_leaks_password_witness:
  "debug (example_flags\<lparr>debug := True\<rparr>) \<and> Arg [''list'', ''node''] 0 \<noteq> [] \<and>
   ''hunter2'' \<noteq> password (example_flags\<lparr>debug := True\<rparr>) \<and>
   hd (trace (main example_env 0 ''cli'' (example_flags\<lparr>debug := True\<rparr>) [''list'', ''node''])) =
     Log_Println
       [Str ''Connecting to'', Ptr_serverURL, Str ''with username'', Str ''root'',
        Str ''and password'', Str ''secret'', Str ''while skipping tls?'', Str ''false''] \<and>
   diagnostics (main example_env 0 ''cli''
       (example_flags\<lparr>debug := True, password := ''hunter2''\<rparr>) [''list'', ''node'']) \<noteq>
     diagnostics (main example_env 0 ''cli'' (example_flags\<lparr>debug := True\<rparr>) [''list'', ''node''])"
proof -
  let ?fl = "example_flags\<lparr>debug := True\<rparr>"
  have d: "debug ?fl" by simp
  have a: "Arg [''list'', ''node''] 0 \<noteq> []" by (simp add: Arg_def)
  have p: "''hunter2'' \<noteq> password ?fl"
    by (simp add: example_flags_def default_flags_def)
  note T = debug_line_leaks_password [OF d a, of example_env 0 "''cli''" "\<lambda>x. []"]
  from T [THEN conjunct1]
  have h: "hd (trace (main example_env 0 ''cli'' ?fl [''list'', ''node''])) =
     Log_Println
       [Str ''Connecting to'', Ptr_serverURL, Str ''with username'', Str ''root'',
        Str ''and password'', Str ''secret'', Str ''while skipping tls?'', Str ''false'']"
    by (auto simp: example_flags_def default_flags_def)
  from T [THEN conjunct2, THEN conjunct2, rule_format, OF p, THEN conjunct1]
  have n: "diagnostics (main example_env 0 ''cli''
       (example_flags\<lparr>debug := True, password := ''hunter2''\<rparr>) [''list'', ''node'']) \<noteq>
     diagnostics (main example_env 0 ''cli'' ?fl [''list'', ''node''])"
    by simp
  from d a p h n show ?thesis by blast
qed

end
